theory Spec2Isabelle
  imports Complex_Main
begin

section \<open>Conventions of the embedding\<close>

text \<open>
  The theory embeds two modules of the package \<^verbatim>\<open>netrun-llm\<close>:
  \<^verbatim>\<open>netrun/llm/policies.py\<close> (the policy enforcer) and
  \<^verbatim>\<open>netrun/llm/telemetry.py\<close> (the telemetry collector).

  \<^item> Python's unbounded \<^verbatim>\<open>int\<close> is \<^typ>\<open>int\<close>.
  \<^item> Python's \<^verbatim>\<open>float\<close> is \<^typ>\<open>real\<close>: arithmetic is exact, the rounding
    of IEEE doubles, infinities and NaN are not modelled.
  \<^item> \<^verbatim>\<open>str\<close> is \<^typ>\<open>string\<close> (ASCII).
  \<^item> A \<^verbatim>\<open>datetime\<close> is the number of microseconds since
    \<^verbatim>\<open>datetime.min\<close> (0001-01-01T00:00:00), a \<^verbatim>\<open>date\<close> the number of
    whole days since then, a \<^verbatim>\<open>timedelta\<close> a number of microseconds.
  \<^item> The clocks the code reads (\<^verbatim>\<open>datetime.utcnow()\<close>, \<^verbatim>\<open>time.time()\<close>) are an
    explicit argument of every operation that reads them.
  \<^item> A method that mutates \<^verbatim>\<open>self\<close> takes the object and returns the new one; a
    method that raises returns \<open>Inl\<close> of the error, together with the object as the
    raise leaves it.
  \<^item> The text of an exception message is not modelled; the tag an error carries
    says which \<^verbatim>\<open>raise\<close> statement produced it.
\<close>

record Clock =
  utcnow :: int
  time_time :: real

definition date_of :: "int \<Rightarrow> int" where
  "date_of dt = dt div 86400000000"

section \<open>Exceptions\<close>

datatype violation =
  ModelDenied | ModelNotAllowed | TierExceedsLimit | TokenLimit | CostLimit | ReasonRequired

datatype budget_scope = Daily | Monthly

datatype rate_kind = RPM | TPM

datatype error =
    ValidationError
  | ProviderDisabledError
  | PolicyViolationError violation
  | BudgetExceededError budget_scope
  | RateLimitExceededError rate_kind
  | FallbackToLocalError budget_scope
  | ValueError
  | OverflowError
  | IndexError

text \<open>
  The classes of these exceptions and their \<^verbatim>\<open>class\<close> statements. \<open>LLMError\<close> is
  defined in \<^verbatim>\<open>netrun/llm/exceptions.py\<close>; pydantic's \<open>ValidationError\<close> derives from
  \<open>ValueError\<close>.
\<close>

datatype exc_class =
    C_BaseException
  | C_Exception
  | C_ArithmeticError
  | C_OverflowError
  | C_LookupError
  | C_IndexError
  | C_ValueError
  | C_ValidationError
  | C_LLMError
  | C_PolicyViolationError
  | C_ProviderDisabledError
  | C_BudgetExceededError
  | C_RateLimitExceededError
  | C_FallbackToLocalError

text \<open>
  Modelled from the spec: the base class of \<open>LLMError\<close>, whose module is not part of the
  sources at hand; its test asserts that an \<open>LLMError\<close> is an \<open>Exception\<close>.
\<close>

definition LLMError_base :: exc_class where
  "LLMError_base = C_Exception"

fun direct_base :: "exc_class \<Rightarrow> exc_class option" where
  "direct_base C_BaseException = None"
| "direct_base C_Exception = Some C_BaseException"
| "direct_base C_ArithmeticError = Some C_Exception"
| "direct_base C_OverflowError = Some C_ArithmeticError"
| "direct_base C_LookupError = Some C_Exception"
| "direct_base C_IndexError = Some C_LookupError"
| "direct_base C_ValueError = Some C_Exception"
| "direct_base C_ValidationError = Some C_ValueError"
| "direct_base C_LLMError = Some LLMError_base"
| "direct_base C_PolicyViolationError = Some C_LLMError"
| "direct_base C_ProviderDisabledError = Some C_PolicyViolationError"
| "direct_base C_BudgetExceededError = Some C_PolicyViolationError"
| "direct_base C_RateLimitExceededError = Some C_PolicyViolationError"
| "direct_base C_FallbackToLocalError = Some C_Exception"

fun depth :: "exc_class \<Rightarrow> nat" where
  "depth C_BaseException = 0"
| "depth C_Exception = 1"
| "depth C_ArithmeticError = 2"
| "depth C_OverflowError = 3"
| "depth C_LookupError = 2"
| "depth C_IndexError = 3"
| "depth C_ValueError = 2"
| "depth C_ValidationError = 3"
| "depth C_LLMError = 2"
| "depth C_PolicyViolationError = 3"
| "depth C_ProviderDisabledError = 4"
| "depth C_BudgetExceededError = 4"
| "depth C_RateLimitExceededError = 4"
| "depth C_FallbackToLocalError = 2"

text \<open>The method resolution order of a class (single inheritance throughout).\<close>

function mro :: "exc_class \<Rightarrow> exc_class list" where
  "mro c = (case direct_base c of None \<Rightarrow> [c] | Some b \<Rightarrow> c # mro b)"
  by pat_completeness auto
termination
proof (relation "measure depth")
  show "wf (measure depth)" by simp
next
  fix c b
  assume "direct_base c = Some b"
  then show "(b, c) \<in> measure depth"
    by (cases c) (auto simp: LLMError_base_def)
qed

definition issubclass :: "exc_class \<Rightarrow> exc_class \<Rightarrow> bool" where
  "issubclass c d = (d \<in> set (mro c))"

fun class_of :: "error \<Rightarrow> exc_class" where
  "class_of ValidationError = C_ValidationError"
| "class_of ProviderDisabledError = C_ProviderDisabledError"
| "class_of (PolicyViolationError v) = C_PolicyViolationError"
| "class_of (BudgetExceededError s) = C_BudgetExceededError"
| "class_of (RateLimitExceededError k) = C_RateLimitExceededError"
| "class_of (FallbackToLocalError s) = C_FallbackToLocalError"
| "class_of ValueError = C_ValueError"
| "class_of OverflowError = C_OverflowError"
| "class_of IndexError = C_IndexError"

text \<open>\<^verbatim>\<open>except handler:\<close> catches a raised exception when its class is a subclass of
  the handler's.\<close>

definition catches :: "exc_class \<Rightarrow> error \<Rightarrow> bool" where
  "catches handler e = issubclass (class_of e) handler"

section \<open>policies.py: tables and policy objects\<close>

datatype CostTier = FREE | LOW | MEDIUM | HIGH | PREMIUM

definition MODEL_COSTS :: "(string \<times> real \<times> real) list" where
  "MODEL_COSTS =
    [(''gpt-4o-mini'', 0.00015, 0.0006),
     (''gpt-4o'', 0.0025, 0.01),
     (''gpt-4-turbo'', 0.01, 0.03),
     (''gpt-4'', 0.03, 0.06),
     (''o1-preview'', 0.015, 0.06),
     (''o1-mini'', 0.003, 0.012),
     (''gpt-3.5-turbo'', 0.0005, 0.0015),
     (''claude-3-haiku'', 0.00025, 0.00125),
     (''claude-3-5-haiku'', 0.0008, 0.004),
     (''claude-3-5-sonnet'', 0.003, 0.015),
     (''claude-3-sonnet'', 0.003, 0.015),
     (''claude-3-opus'', 0.015, 0.075),
     (''claude-sonnet-4-5-20250929'', 0.003, 0.015),
     (''claude-opus-4-5-20251101'', 0.015, 0.075),
     (''azure-gpt-4o-mini'', 0.00015, 0.0006),
     (''azure-gpt-4o'', 0.0025, 0.01),
     (''azure-gpt-4'', 0.03, 0.06),
     (''llama3.2'', 0, 0),
     (''llama3'', 0, 0),
     (''mistral'', 0, 0),
     (''codellama'', 0, 0),
     (''phi3'', 0, 0),
     (''gemma'', 0, 0)]"

definition MODEL_COST_TIERS :: "(string \<times> CostTier) list" where
  "MODEL_COST_TIERS =
    [(''llama3.2'', FREE),
     (''llama3'', FREE),
     (''mistral'', FREE),
     (''codellama'', FREE),
     (''phi3'', FREE),
     (''gemma'', FREE),
     (''gpt-4o-mini'', LOW),
     (''gpt-3.5-turbo'', LOW),
     (''claude-3-haiku'', LOW),
     (''claude-3-5-haiku'', LOW),
     (''azure-gpt-4o-mini'', LOW),
     (''gpt-4o'', MEDIUM),
     (''claude-3-5-sonnet'', MEDIUM),
     (''claude-3-sonnet'', MEDIUM),
     (''claude-sonnet-4-5-20250929'', MEDIUM),
     (''azure-gpt-4o'', MEDIUM),
     (''gpt-4-turbo'', HIGH),
     (''gpt-4'', HIGH),
     (''claude-3-opus'', HIGH),
     (''claude-opus-4-5-20251101'', HIGH),
     (''azure-gpt-4'', HIGH),
     (''o1-preview'', PREMIUM),
     (''o1-mini'', PREMIUM)]"

record ProviderPolicy =
  provider :: string
  allowed_models :: "string list"
  denied_models :: "string list"
  max_tokens_per_request :: int
  max_cost_per_request :: real
  rate_limit_rpm :: int
  rate_limit_tpm :: int
  cost_tier_limit :: "CostTier option"
  require_reason :: bool
  enabled :: bool

text \<open>The values the field \<^verbatim>\<open>provider: Literal[...]\<close> accepts.\<close>

definition PROVIDER_LITERAL :: "string list" where
  "PROVIDER_LITERAL = [''openai'', ''anthropic'', ''azure_openai'', ''ollama'', ''bedrock'']"

text \<open>\<^verbatim>\<open>ProviderPolicy(provider=p)\<close>: every other field at its default; pydantic
  refuses a provider outside the literal.\<close>

definition default_fields :: "string \<Rightarrow> ProviderPolicy" where
  "default_fields p =
    \<lparr>provider = p, allowed_models = [], denied_models = [],
     max_tokens_per_request = 4096, max_cost_per_request = 1.0,
     rate_limit_rpm = 60, rate_limit_tpm = 100000, cost_tier_limit = None,
     require_reason = False, enabled = True\<rparr>"

definition ProviderPolicy_default :: "string \<Rightarrow> error + ProviderPolicy" where
  "ProviderPolicy_default p =
    (if p \<in> set PROVIDER_LITERAL then Inr (default_fields p) else Inl ValidationError)"

record TenantPolicy =
  tenant_id :: string
  monthly_budget_usd :: real
  daily_budget_usd :: "real option"
  provider_policies :: "string \<rightharpoonup> ProviderPolicy"
  default_provider :: string
  fallback_to_local :: bool
  track_usage :: bool
  alert_threshold_pct :: real

record UsageRecord =
  ur_timestamp :: int
  ur_tenant_id :: string
  ur_provider :: string
  ur_model :: string
  tokens_input :: int
  tokens_output :: int
  tokens_total :: int
  ur_cost_usd :: real
  ur_latency_ms :: real
  ur_success :: bool
  ur_reason :: "string option"

text \<open>One entry of \<^verbatim>\<open>_rate_limit_state\<close>: the dictionary with the keys
  \<^verbatim>\<open>"requests"\<close> and \<^verbatim>\<open>"tokens"\<close>.\<close>

record RateState =
  requests :: "real list"
  tokens :: "(real \<times> int) list"

record PolicyEnforcer =
  policy :: TenantPolicy
  usage_records :: "UsageRecord list"
  monthly_spend :: real
  daily_spend :: real
  last_daily_reset :: int
  rate_limit_state :: "string \<rightharpoonup> RateState"

definition PolicyEnforcer_init :: "Clock \<Rightarrow> TenantPolicy \<Rightarrow> PolicyEnforcer" where
  "PolicyEnforcer_init clk pol =
    \<lparr>policy = pol, usage_records = [], monthly_spend = 0, daily_spend = 0,
     last_daily_reset = date_of (utcnow clk), rate_limit_state = Map.empty\<rparr>"

section \<open>policies.py: the policy enforcer\<close>

text \<open>\<^verbatim>\<open>int(x)\<close> of a float truncates towards zero.\<close>

definition py_int_of_float :: "real \<Rightarrow> int" where
  "py_int_of_float x = (if 0 \<le> x then \<lfloor>x\<rfloor> else \<lceil>x\<rceil>)"

definition estimate_cost :: "string \<Rightarrow> int \<Rightarrow> real \<Rightarrow> real" where
  "estimate_cost model tks input_ratio =
    (case map_of MODEL_COSTS model of
       None \<Rightarrow> 0
     | Some (input_cost, output_cost) \<Rightarrow>
         (let input_tokens = py_int_of_float (of_int tks * input_ratio);
              output_tokens = tks - input_tokens
          in (of_int input_tokens * input_cost + of_int output_tokens * output_cost) / 1000))"

text \<open>\<^verbatim>\<open>xs.index(x)\<close> for an \<open>x\<close> that is in \<open>xs\<close>.\<close>

fun list_index :: "'a list \<Rightarrow> 'a \<Rightarrow> nat" where
  "list_index [] x = 0"
| "list_index (y # ys) x = (if y = x then 0 else Suc (list_index ys x))"

definition tier_order :: "CostTier list" where
  "tier_order = [FREE, LOW, MEDIUM, HIGH, PREMIUM]"

definition tier_exceeds_limit :: "CostTier \<Rightarrow> CostTier \<Rightarrow> bool" where
  "tier_exceeds_limit model_tier limit_tier =
    (list_index tier_order model_tier > list_index tier_order limit_tier)"

definition reset_daily_budget_if_needed :: "PolicyEnforcer \<Rightarrow> Clock \<Rightarrow> PolicyEnforcer" where
  "reset_daily_budget_if_needed self clk =
    (let current_date = date_of (utcnow clk) in
     if current_date > last_daily_reset self
     then self\<lparr>daily_spend := 0, last_daily_reset := current_date\<rparr>
     else self)"

definition reset_monthly_budget :: "PolicyEnforcer \<Rightarrow> PolicyEnforcer" where
  "reset_monthly_budget self = self\<lparr>monthly_spend := 0\<rparr>"

text \<open>
  \<^verbatim>\<open>_check_rate_limits\<close>. The entry of the provider is created when it is missing and
  pruned before either limit is tested; both stay in place when the method raises.
\<close>

definition check_rate_limits ::
  "PolicyEnforcer \<Rightarrow> Clock \<Rightarrow> string \<Rightarrow> ProviderPolicy \<Rightarrow> int \<Rightarrow> (error + unit) \<times> PolicyEnforcer"
where
  "check_rate_limits self clk prov pol tks =
    (let st0 = (case rate_limit_state self prov of
                  None \<Rightarrow> \<lparr>requests = [], tokens = []\<rparr>
                | Some st \<Rightarrow> st);
         now = time_time clk;
         minute_ago = now - 60;
         st1 = \<lparr>requests = filter (\<lambda>t. t > minute_ago) (requests st0),
                tokens = filter (\<lambda>(ts, tc). ts > minute_ago) (tokens st0)\<rparr>;
         self1 = self\<lparr>rate_limit_state := (rate_limit_state self)(prov \<mapsto> st1)\<rparr>
     in
       if rate_limit_rpm pol > 0 \<and> int (length (requests st1)) \<ge> rate_limit_rpm pol
       then (Inl (RateLimitExceededError RPM), self1)
       else
         (let tokens_in_window = sum_list (map snd (tokens st1)) in
          if rate_limit_tpm pol > 0 \<and> tokens_in_window + tks > rate_limit_tpm pol
          then (Inl (RateLimitExceededError TPM), self1)
          else
            (Inr (),
             self\<lparr>rate_limit_state := (rate_limit_state self)(prov \<mapsto>
               \<lparr>requests = requests st1 @ [now],
                tokens = tokens st1 @ [(now, tks)]\<rparr>)\<rparr>)))"

text \<open>The error of an exceeded budget: the fallback signal when the tenant allows it.\<close>

definition budget_error :: "PolicyEnforcer \<Rightarrow> budget_scope \<Rightarrow> error" where
  "budget_error self scope =
    (if fallback_to_local (policy self) then FallbackToLocalError scope
     else BudgetExceededError scope)"

text \<open>
  \<^verbatim>\<open>validate_request\<close>. The default policy is an argument of \<^verbatim>\<open>dict.get\<close>, so it is
  constructed (and validated) before the lookup, whether the provider has an entry or
  not. \<^verbatim>\<open>if x and ...\<close> on an optional float is false for \<^verbatim>\<open>None\<close> and for \<open>0.0\<close>;
  \<^verbatim>\<open>not reason\<close> is true for \<^verbatim>\<open>None\<close> and for the empty string.
\<close>

definition validate_request ::
  "PolicyEnforcer \<Rightarrow> Clock \<Rightarrow> string \<Rightarrow> string \<Rightarrow> int \<Rightarrow> string option
    \<Rightarrow> (error + unit) \<times> PolicyEnforcer"
where
  "validate_request self clk prov model estimated_tokens reason =
    (case ProviderPolicy_default prov of
       Inl err \<Rightarrow> (Inl err, self)
     | Inr dflt \<Rightarrow>
    (let provider_policy =
           (case provider_policies (policy self) prov of Some p \<Rightarrow> p | None \<Rightarrow> dflt)
     in
     if \<not> enabled provider_policy then (Inl ProviderDisabledError, self)
     else if denied_models provider_policy \<noteq> [] \<and> model \<in> set (denied_models provider_policy)
       then (Inl (PolicyViolationError ModelDenied), self)
     else if allowed_models provider_policy \<noteq> [] \<and> model \<notin> set (allowed_models provider_policy)
       then (Inl (PolicyViolationError ModelNotAllowed), self)
     else if (case cost_tier_limit provider_policy of
                None \<Rightarrow> False
              | Some limit_tier \<Rightarrow>
                  (case map_of MODEL_COST_TIERS model of
                     None \<Rightarrow> False
                   | Some model_tier \<Rightarrow> tier_exceeds_limit model_tier limit_tier))
       then (Inl (PolicyViolationError TierExceedsLimit), self)
     else if estimated_tokens > max_tokens_per_request provider_policy
       then (Inl (PolicyViolationError TokenLimit), self)
     else
      (let estimated_cost = estimate_cost model estimated_tokens 0.7 in
       if max_cost_per_request provider_policy > 0
          \<and> estimated_cost > max_cost_per_request provider_policy
       then (Inl (PolicyViolationError CostLimit), self)
       else
        (let self1 = reset_daily_budget_if_needed self clk in
         if (case daily_budget_usd (policy self1) of
               None \<Rightarrow> False
             | Some d \<Rightarrow> d \<noteq> 0 \<and> daily_spend self1 + estimated_cost > d)
         then (Inl (budget_error self1 Daily), self1)
         else if monthly_spend self1 + estimated_cost > monthly_budget_usd (policy self1)
         then (Inl (budget_error self1 Monthly), self1)
         else
          (case check_rate_limits self1 clk prov provider_policy estimated_tokens of
             (Inl err, self2) \<Rightarrow> (Inl err, self2)
           | (Inr u, self2) \<Rightarrow>
               if require_reason provider_policy \<and> (reason = None \<or> reason = Some [])
               then (Inl (PolicyViolationError ReasonRequired), self2)
               else (Inr (), self2))))))"

text \<open>
  \<^verbatim>\<open>record_usage\<close>. The alert threshold is computed and nothing is done with it
  (\<^verbatim>\<open>pass\<close>); the division is guarded by \<^verbatim>\<open>monthly_budget_usd > 0\<close>.
\<close>

definition record_usage ::
  "PolicyEnforcer \<Rightarrow> Clock \<Rightarrow> string \<Rightarrow> string \<Rightarrow> int \<Rightarrow> int \<Rightarrow> real \<Rightarrow> real \<Rightarrow> bool
    \<Rightarrow> string option \<Rightarrow> PolicyEnforcer"
where
  "record_usage self clk prov model tks_in tks_out cost latency ok reason =
    (if \<not> track_usage (policy self) then self
     else
       (let rec = \<lparr>ur_timestamp = utcnow clk, ur_tenant_id = tenant_id (policy self),
                   ur_provider = prov, ur_model = model,
                   tokens_input = tks_in, tokens_output = tks_out,
                   tokens_total = tks_in + tks_out, ur_cost_usd = cost,
                   ur_latency_ms = latency, ur_success = ok, ur_reason = reason\<rparr>
        in self\<lparr>usage_records := usage_records self @ [rec],
                monthly_spend := monthly_spend self + cost,
                daily_spend := daily_spend self + cost\<rparr>))"

text \<open>\<^verbatim>\<open>str.lower\<close> on ASCII.\<close>

definition py_lower_char :: "char \<Rightarrow> char" where
  "py_lower_char c =
    (case map_of (zip ''ABCDEFGHIJKLMNOPQRSTUVWXYZ'' ''abcdefghijklmnopqrstuvwxyz'') c of
       Some l \<Rightarrow> l
     | None \<Rightarrow> c)"

definition py_lower :: "string \<Rightarrow> string" where
  "py_lower s = map py_lower_char s"

text \<open>The loop of \<^verbatim>\<open>get_model_pricing\<close> over the prefixes: the first one that gives
  a key of the table wins.\<close>

fun prefixed_pricing :: "string list \<Rightarrow> string \<Rightarrow> (real \<times> real) option" where
  "prefixed_pricing [] model = None"
| "prefixed_pricing (prefix # rest) model =
    (case map_of MODEL_COSTS (prefix @ model) of
       Some rates \<Rightarrow> Some rates
     | None \<Rightarrow> prefixed_pricing rest model)"

definition get_model_pricing :: "string \<Rightarrow> string \<Rightarrow> (real \<times> real) option" where
  "get_model_pricing prov model =
    (let provider_lower = py_lower prov in
     case map_of MODEL_COSTS model of
       Some rates \<Rightarrow> Some rates
     | None \<Rightarrow>
        (case prefixed_pricing [''azure-'', ''claude-'', ''gpt-''] model of
           Some rates \<Rightarrow> Some rates
         | None \<Rightarrow>
            if provider_lower \<in> set [''ollama'', ''local''] then Some (0, 0) else None))"

section \<open>telemetry.py: records\<close>

record LLMRequestMetrics =
  request_id :: string
  m_tenant_id :: string
  m_provider :: string
  m_model :: string
  user_id :: "string option"
  input_tokens :: int
  output_tokens :: int
  total_tokens :: int
  latency_ms :: real
  time_to_first_token_ms :: "real option"
  cost_usd :: real
  timestamp :: int
  success :: bool
  error_type :: "string option"
  error_message :: "string option"
  endpoint :: "string option"
  streaming :: bool
  cached :: bool

text \<open>The dictionaries \<^verbatim>\<open>{"requests": ..., "cost": ..., "tokens": ...}\<close> of the
  breakdowns.\<close>

record Breakdown =
  b_requests :: int
  b_cost :: real
  b_tokens :: int

record AggregatedMetrics =
  period_start :: int
  period_end :: int
  a_tenant_id :: "string option"
  total_requests :: int
  successful_requests :: int
  failed_requests :: int
  cached_requests :: int
  total_input_tokens :: int
  total_output_tokens :: int
  total_cost_usd :: real
  latency_p50 :: real
  latency_p95 :: real
  latency_p99 :: real
  latency_avg :: real
  by_provider :: "string \<rightharpoonup> Breakdown"
  by_model :: "string \<rightharpoonup> Breakdown"
  errors_by_type :: "string \<rightharpoonup> int"

text \<open>\<^verbatim>\<open>AggregatedMetrics(period_start=.., period_end=.., tenant_id=..)\<close>: every other
  field at its default.\<close>

definition AggregatedMetrics_default :: "int \<Rightarrow> int \<Rightarrow> string option \<Rightarrow> AggregatedMetrics" where
  "AggregatedMetrics_default start fin tenant =
    \<lparr>period_start = start, period_end = fin, a_tenant_id = tenant,
     total_requests = 0, successful_requests = 0, failed_requests = 0, cached_requests = 0,
     total_input_tokens = 0, total_output_tokens = 0, total_cost_usd = 0,
     latency_p50 = 0, latency_p95 = 0, latency_p99 = 0, latency_avg = 0,
     by_provider = Map.empty, by_model = Map.empty, errors_by_type = Map.empty\<rparr>"

text \<open>
  The collector. \<^verbatim>\<open>_by_tenant\<close> is a \<^verbatim>\<open>defaultdict(list)\<close>: a total function whose
  value is the empty list at a tenant never seen. The lock, the export callback and the
  log line do not touch \<^verbatim>\<open>_metrics\<close> or \<^verbatim>\<open>_by_tenant\<close> and are left out.
\<close>

record TelemetryCollector =
  max_history :: int
  metrics :: "LLMRequestMetrics list"
  by_tenant :: "string \<Rightarrow> LLMRequestMetrics list"

definition TelemetryCollector_init :: "int \<Rightarrow> TelemetryCollector" where
  "TelemetryCollector_init mh = \<lparr>max_history = mh, metrics = [], by_tenant = (\<lambda>t. [])\<rparr>"

section \<open>telemetry.py: recording\<close>

definition calculate_cost :: "string \<Rightarrow> string \<Rightarrow> int \<Rightarrow> int \<Rightarrow> real" where
  "calculate_cost prov model in_tokens out_tokens =
    (case get_model_pricing prov model of
       None \<Rightarrow> 0
     | Some (input_rate, output_rate) \<Rightarrow>
         (of_int in_tokens * input_rate + of_int out_tokens * output_rate) / 1000)"

text \<open>The first statement of \<^verbatim>\<open>record\<close>: the cost is computed when it is not set.\<close>

definition priced :: "LLMRequestMetrics \<Rightarrow> LLMRequestMetrics" where
  "priced m =
    (if cost_usd m = 0 \<and> total_tokens m > 0
     then m\<lparr>cost_usd := calculate_cost (m_provider m) (m_model m) (input_tokens m) (output_tokens m)\<rparr>
     else m)"

text \<open>\<^verbatim>\<open>record\<close> is named \<open>record_metrics\<close> here. \<^verbatim>\<open>_metrics.pop(0)\<close> is applied to
  a list that has just been appended to, so it cannot raise.\<close>

definition record_metrics :: "TelemetryCollector \<Rightarrow> LLMRequestMetrics \<Rightarrow> TelemetryCollector" where
  "record_metrics self m0 =
    (let m = priced m0;
         ms = metrics self @ [m];
         bt = (by_tenant self)(m_tenant_id m := by_tenant self (m_tenant_id m) @ [m])
     in
      if int (length ms) > max_history self then
        (case ms of
           [] \<Rightarrow> self\<lparr>metrics := ms, by_tenant := bt\<rparr>
         | removed # rest \<Rightarrow>
            (let tenant_list = bt (m_tenant_id removed) in
             if tenant_list \<noteq> [] \<and> request_id (hd tenant_list) = request_id removed
             then self\<lparr>metrics := rest,
                       by_tenant := bt(m_tenant_id removed := tl tenant_list)\<rparr>
             else self\<lparr>metrics := rest, by_tenant := bt\<rparr>))
      else self\<lparr>metrics := ms, by_tenant := bt\<rparr>)"

section \<open>telemetry.py: statistics\<close>

text \<open>\<^verbatim>\<open>xs[i]\<close> on a list: a negative index counts from the end, an index out of
  range raises.\<close>

definition py_getitem :: "'a list \<Rightarrow> int \<Rightarrow> error + 'a" where
  "py_getitem xs i =
    (if i < - int (length xs) \<or> int (length xs) \<le> i then Inl IndexError
     else if i < 0 then Inr (xs ! nat (int (length xs) + i))
     else Inr (xs ! nat i))"

text \<open>\<^verbatim>\<open>_percentile\<close>; \<^verbatim>\<open>idx.is_integer()\<close> compares the index with its floor.\<close>

definition percentile :: "real list \<Rightarrow> int \<Rightarrow> error + real" where
  "percentile vals p =
    (if vals = [] then Inr 0
     else
      (let idx = of_int ((int (length vals) - 1) * p) / (100::real) in
       if of_int \<lfloor>idx\<rfloor> = idx then py_getitem vals (py_int_of_float idx)
       else
        (let lower_idx = py_int_of_float idx;
             upper_idx = min (lower_idx + 1) (int (length vals) - 1);
             fraction = idx - of_int lower_idx
         in case py_getitem vals lower_idx of
              Inl err \<Rightarrow> Inl err
            | Inr lo \<Rightarrow>
               (case py_getitem vals upper_idx of
                  Inl err \<Rightarrow> Inl err
                | Inr hi \<Rightarrow> Inr (lo + (hi - lo) * fraction)))))"

text \<open>
  \<^verbatim>\<open>int(s)\<close> on the characters of ASCII: surrounding white space (the characters
  0x09 to 0x0D and the space) is dropped, one sign is allowed, then decimal digits, with
  single underscores between digits.
\<close>

definition py_isspace :: "char \<Rightarrow> bool" where
  "py_isspace c = (c \<in> set [CHR 0x09, CHR 0x0A, CHR 0x0B, CHR 0x0C, CHR 0x0D, CHR 0x20])"

definition py_strip :: "string \<Rightarrow> string" where
  "py_strip s = rev (dropWhile py_isspace (rev (dropWhile py_isspace s)))"

definition digit_of :: "char \<Rightarrow> int option" where
  "digit_of c = map_of (zip ''0123456789'' [0, 1, 2, 3, 4, 5, 6, 7, 8, 9]) c"

fun py_digits :: "int \<Rightarrow> bool \<Rightarrow> string \<Rightarrow> int option" where
  "py_digits acc after_digit [] = (if after_digit then Some acc else None)"
| "py_digits acc after_digit (c # cs) =
    (if c = CHR ''_'' then
       (if after_digit \<and> cs \<noteq> [] then py_digits acc False cs else None)
     else
       (case digit_of c of
          None \<Rightarrow> None
        | Some d \<Rightarrow> py_digits (10 * acc + d) True cs))"

definition py_int :: "string \<Rightarrow> int option" where
  "py_int s =
    (case py_strip s of
       [] \<Rightarrow> None
     | c # cs \<Rightarrow>
        if c = CHR ''-'' then map_option uminus (py_digits 0 False cs)
        else if c = CHR ''+'' then py_digits 0 False cs
        else py_digits 0 False (c # cs))"

text \<open>A \<^verbatim>\<open>timedelta\<close> of so many microseconds; its days must stay within
  \<open>\<plusminus>999999999\<close>.\<close>

definition timedelta :: "int \<Rightarrow> error + int" where
  "timedelta us =
    (let d = us div 86400000000
     in if - 999999999 \<le> d \<and> d \<le> 999999999 then Inr us else Inl OverflowError)"

text \<open>\<^verbatim>\<open>datetime.max\<close> is 9999-12-31T23:59:59.999999, day 3652059 of the calendar.\<close>

definition DATETIME_MAX :: int where
  "DATETIME_MAX = 3652059 * 86400000000 - 1"

definition datetime_sub :: "int \<Rightarrow> int \<Rightarrow> error + int" where
  "datetime_sub dt delta =
    (let r = dt - delta in if 0 \<le> r \<and> r \<le> DATETIME_MAX then Inr r else Inl OverflowError)"

definition parse_period :: "string \<Rightarrow> error + int" where
  "parse_period period =
    (if period = [] then Inl ValueError
     else
      (let unit_char = last period in
       case py_int (butlast period) of
         None \<Rightarrow> Inl ValueError
       | Some v \<Rightarrow>
          if unit_char = CHR ''h'' then timedelta (v * 3600000000)
          else if unit_char = CHR ''d'' then timedelta (v * 86400000000)
          else if unit_char = CHR ''m'' then timedelta (v * 60000000)
          else Inl ValueError))"

text \<open>One pass of the loop of \<^verbatim>\<open>get_stats\<close> over a breakdown dictionary.\<close>

definition bump :: "(string \<rightharpoonup> Breakdown) \<Rightarrow> string \<Rightarrow> real \<Rightarrow> int \<Rightarrow> (string \<rightharpoonup> Breakdown)" where
  "bump d k cost tks =
    (let b = (case d k of None \<Rightarrow> \<lparr>b_requests = 0, b_cost = 0, b_tokens = 0\<rparr> | Some b \<Rightarrow> b)
     in d(k \<mapsto> \<lparr>b_requests = b_requests b + 1, b_cost = b_cost b + cost,
                 b_tokens = b_tokens b + tks\<rparr>))"

definition count_error :: "(string \<rightharpoonup> int) \<Rightarrow> LLMRequestMetrics \<Rightarrow> (string \<rightharpoonup> int)" where
  "count_error d m =
    (case error_type m of
       None \<Rightarrow> d
     | Some et \<Rightarrow>
        if \<not> success m \<and> et \<noteq> []
        then d(et \<mapsto> (case d et of None \<Rightarrow> 0 | Some n \<Rightarrow> n) + 1)
        else d)"

definition latency_average :: "real list \<Rightarrow> real" where
  "latency_average latencies =
    (if latencies \<noteq> [] then sum_list latencies / of_nat (length latencies) else 0)"

text \<open>The records \<^verbatim>\<open>get_stats\<close> aggregates: those of the tenant's index when a
  non-empty tenant is given, the whole history otherwise, not older than the cutoff.\<close>

definition selected :: "TelemetryCollector \<Rightarrow> int \<Rightarrow> string option \<Rightarrow> LLMRequestMetrics list" where
  "selected self cutoff tenant =
    (case tenant of
       None \<Rightarrow> filter (\<lambda>m. timestamp m \<ge> cutoff) (metrics self)
     | Some t \<Rightarrow>
        if t \<noteq> [] then filter (\<lambda>m. timestamp m \<ge> cutoff) (by_tenant self t)
        else filter (\<lambda>m. timestamp m \<ge> cutoff) (metrics self))"

definition aggregate :: "int \<Rightarrow> int \<Rightarrow> string option \<Rightarrow> LLMRequestMetrics list \<Rightarrow> error + AggregatedMetrics" where
  "aggregate cutoff now tenant ms =
    (if ms = [] then Inr (AggregatedMetrics_default cutoff now tenant)
     else
      (let latencies = sort (map latency_ms ms) in
       case percentile latencies 50 of Inl err \<Rightarrow> Inl err | Inr p50 \<Rightarrow>
       (case percentile latencies 95 of Inl err \<Rightarrow> Inl err | Inr p95 \<Rightarrow>
       (case percentile latencies 99 of Inl err \<Rightarrow> Inl err | Inr p99 \<Rightarrow>
         Inr \<lparr>period_start = cutoff, period_end = now, a_tenant_id = tenant,
              total_requests = int (length ms),
              successful_requests = int (length (filter success ms)),
              failed_requests = int (length (filter (\<lambda>m. \<not> success m) ms)),
              cached_requests = int (length (filter cached ms)),
              total_input_tokens = sum_list (map input_tokens ms),
              total_output_tokens = sum_list (map output_tokens ms),
              total_cost_usd = sum_list (map cost_usd ms),
              latency_p50 = p50, latency_p95 = p95, latency_p99 = p99,
              latency_avg = latency_average latencies,
              by_provider =
                foldl (\<lambda>d m. bump d (m_provider m) (cost_usd m) (total_tokens m)) Map.empty ms,
              by_model =
                foldl (\<lambda>d m. bump d (m_model m) (cost_usd m) (total_tokens m)) Map.empty ms,
              errors_by_type = foldl count_error Map.empty ms\<rparr>))))"

text \<open>\<^verbatim>\<open>get_stats\<close>, with the reading of \<^verbatim>\<open>datetime.utcnow()\<close> as \<open>now\<close>. It reads
  the collector and changes nothing in it.\<close>

definition get_stats :: "TelemetryCollector \<Rightarrow> int \<Rightarrow> string \<Rightarrow> string option \<Rightarrow> error + AggregatedMetrics" where
  "get_stats self now period tenant =
    (case parse_period period of
       Inl err \<Rightarrow> Inl err
     | Inr period_delta \<Rightarrow>
        (case datetime_sub now period_delta of
           Inl err \<Rightarrow> Inl err
         | Inr cutoff \<Rightarrow> aggregate cutoff now tenant (selected self cutoff tenant)))"

section \<open>Constructors with defaults\<close>

text \<open>\<^verbatim>\<open>TenantPolicy(tenant_id=t)\<close>: every other field at its default.\<close>

definition TenantPolicy_default :: "string \<Rightarrow> TenantPolicy" where
  "TenantPolicy_default t =
    \<lparr>tenant_id = t, monthly_budget_usd = 100, daily_budget_usd = None,
     provider_policies = Map.empty, default_provider = ''openai'',
     fallback_to_local = True, track_usage = True, alert_threshold_pct = 80\<rparr>"

text \<open>A reading of the two clocks on 2025-01-01 at midnight UTC, and readings some
  seconds, or days and seconds, later.\<close>

definition clock_at :: "int \<Rightarrow> int \<Rightarrow> Clock" where
  "clock_at days secs =
    \<lparr>utcnow = (739251 + days) * 86400000000 + secs * 1000000,
     time_time = 1735689600 + of_int days * 86400 + of_int secs\<rparr>"

section \<open>The rules of validate\_request, as the specification lists them\<close>

text \<open>The policy a call is checked against: the tenant's entry for the provider, the
  default fields when it has none.\<close>

definition policy_for :: "PolicyEnforcer \<Rightarrow> string \<Rightarrow> ProviderPolicy" where
  "policy_for self prov =
    (case provider_policies (policy self) prov of Some p \<Rightarrow> p | None \<Rightarrow> default_fields prov)"

text \<open>The daily spend a call sees: zero once the date has moved past the last reset.\<close>

definition spend_today :: "PolicyEnforcer \<Rightarrow> Clock \<Rightarrow> real" where
  "spend_today self clk =
    (if date_of (utcnow clk) > last_daily_reset self then 0 else daily_spend self)"

text \<open>The provider's window a call sees: the entries of the trailing 60 seconds.\<close>

definition window_requests :: "PolicyEnforcer \<Rightarrow> Clock \<Rightarrow> string \<Rightarrow> real list" where
  "window_requests self clk prov =
    (case rate_limit_state self prov of
       None \<Rightarrow> []
     | Some st \<Rightarrow> filter (\<lambda>t. t > time_time clk - 60) (requests st))"

definition window_tokens :: "PolicyEnforcer \<Rightarrow> Clock \<Rightarrow> string \<Rightarrow> (real \<times> int) list" where
  "window_tokens self clk prov =
    (case rate_limit_state self prov of
       None \<Rightarrow> []
     | Some st \<Rightarrow> filter (\<lambda>(ts, tc). ts > time_time clk - 60) (tokens st))"

text \<open>The ordered scale free < low < medium < high < premium.\<close>

fun tier_rank :: "CostTier \<Rightarrow> nat" where
  "tier_rank FREE = 0"
| "tier_rank LOW = 1"
| "tier_rank MEDIUM = 2"
| "tier_rank HIGH = 3"
| "tier_rank PREMIUM = 4"

definition fails_if :: "bool \<Rightarrow> error \<Rightarrow> error option" where
  "fails_if b e = (if b then Some e else None)"

text \<open>
  The rules in the order and in the words of the specification, each judged on the
  enforcer as it is before the call: provider enabled, model denied, model not allowed,
  cost tier, token ceiling, cost ceiling, daily budget (a daily budget is set and the
  spend of the day with the estimated cost would exceed it), monthly budget, requests
  per minute, tokens per minute, reason required. An entry is the error of the rule
  when the rule fails.
\<close>

definition rule_failures ::
  "PolicyEnforcer \<Rightarrow> Clock \<Rightarrow> string \<Rightarrow> string \<Rightarrow> int \<Rightarrow> string option \<Rightarrow> error option list"
where
  "rule_failures self clk prov model tks reason =
    (let pp = policy_for self prov; cost = estimate_cost model tks 0.7 in
     [fails_if (\<not> enabled pp) ProviderDisabledError,
      fails_if (model \<in> set (denied_models pp)) (PolicyViolationError ModelDenied),
      fails_if (allowed_models pp \<noteq> [] \<and> model \<notin> set (allowed_models pp))
        (PolicyViolationError ModelNotAllowed),
      fails_if (case (cost_tier_limit pp, map_of MODEL_COST_TIERS model) of
                  (Some limit_tier, Some model_tier) \<Rightarrow> tier_rank model_tier > tier_rank limit_tier
                | _ \<Rightarrow> False)
        (PolicyViolationError TierExceedsLimit),
      fails_if (tks > max_tokens_per_request pp) (PolicyViolationError TokenLimit),
      fails_if (max_cost_per_request pp > 0 \<and> cost > max_cost_per_request pp)
        (PolicyViolationError CostLimit),
      fails_if (case daily_budget_usd (policy self) of
                  None \<Rightarrow> False
                | Some d \<Rightarrow> spend_today self clk + cost > d)
        (budget_error self Daily),
      fails_if (monthly_spend self + cost > monthly_budget_usd (policy self))
        (budget_error self Monthly),
      fails_if (rate_limit_rpm pp > 0
                \<and> int (length (window_requests self clk prov)) \<ge> rate_limit_rpm pp)
        (RateLimitExceededError RPM),
      fails_if (rate_limit_tpm pp > 0
                \<and> sum_list (map snd (window_tokens self clk prov)) + tks > rate_limit_tpm pp)
        (RateLimitExceededError TPM),
      fails_if (require_reason pp \<and> (reason = None \<or> reason = Some []))
        (PolicyViolationError ReasonRequired)])"

fun first_failure :: "error option list \<Rightarrow> error option" where
  "first_failure [] = None"
| "first_failure (None # rs) = first_failure rs"
| "first_failure (Some e # rs) = Some e"

definition outcome :: "error option \<Rightarrow> error + unit" where
  "outcome r = (case r of None \<Rightarrow> Inr () | Some e \<Rightarrow> Inl e)"

section \<open>Scenarios of the test suite\<close>

text \<open>The enforcer of \<^verbatim>\<open>test_rate_limit_rpm\<close>: two requests per minute for
  \<^verbatim>\<open>openai\<close>.\<close>

definition rpm2_enforcer :: PolicyEnforcer where
  "rpm2_enforcer = PolicyEnforcer_init (clock_at 0 0)
     ((TenantPolicy_default ''test'')\<lparr>provider_policies :=
        [''openai'' \<mapsto> (default_fields ''openai'')\<lparr>rate_limit_rpm := 2\<rparr>]\<rparr>)"

text \<open>An enforcer that wants a reason and allows one request per minute.\<close>

definition reason_enforcer :: PolicyEnforcer where
  "reason_enforcer = PolicyEnforcer_init (clock_at 0 0)
     ((TenantPolicy_default ''test'')\<lparr>provider_policies :=
        [''openai'' \<mapsto> (default_fields ''openai'')\<lparr>rate_limit_rpm := 1,
                                                     require_reason := True\<rparr>]\<rparr>)"

text \<open>The enforcer of \<^verbatim>\<open>test_monthly_budget_enforcement\<close> and of
  \<^verbatim>\<open>test_fallback_to_local\<close>: a monthly budget of one dollar, of which 0.95 are
  spent, with and without the fallback.\<close>

definition budget_enforcer :: "bool \<Rightarrow> PolicyEnforcer" where
  "budget_enforcer fallback =
     record_usage
       (PolicyEnforcer_init (clock_at 0 0)
          ((TenantPolicy_default ''test'')\<lparr>monthly_budget_usd := 1.0,
                                             fallback_to_local := fallback\<rparr>))
       (clock_at 0 1) ''anthropic'' ''claude-3-opus'' 500 500 0.95 1000 True None"

text \<open>A tenant whose daily budget is set to zero, with a monthly budget of 100.\<close>

definition zero_daily_enforcer :: PolicyEnforcer where
  "zero_daily_enforcer = PolicyEnforcer_init (clock_at 0 0)
     ((TenantPolicy_default ''test'')\<lparr>daily_budget_usd := Some 0,
                                        fallback_to_local := False\<rparr>)"

section \<open>Sequences of calls to the enforcer\<close>

text \<open>The public methods of \<^verbatim>\<open>PolicyEnforcer\<close>, as calls with their arguments.
  \<^verbatim>\<open>estimate_cost\<close> and \<^verbatim>\<open>get_usage_report\<close> read the enforcer and assign nothing
  in it.\<close>

datatype enforcer_call =
    ValidateRequest string string int "string option"
  | EstimateCost string int real
  | RecordUsage string string int int real real bool "string option"
  | GetUsageReport int
  | ResetMonthlyBudget

text \<open>The enforcer after a call made at a reading of the clocks; a call that raises
  leaves the enforcer as the raise found it.\<close>

fun after_call :: "PolicyEnforcer \<Rightarrow> Clock \<times> enforcer_call \<Rightarrow> PolicyEnforcer" where
  "after_call self (clk, ValidateRequest prov model tks reason) =
     snd (validate_request self clk prov model tks reason)"
| "after_call self (clk, EstimateCost model tks ratio) = self"
| "after_call self (clk, RecordUsage prov model tks_in tks_out cost latency ok reason) =
     record_usage self clk prov model tks_in tks_out cost latency ok reason"
| "after_call self (clk, GetUsageReport days) = self"
| "after_call self (clk, ResetMonthlyBudget) = reset_monthly_budget self"

definition run_calls :: "PolicyEnforcer \<Rightarrow> (Clock \<times> enforcer_call) list \<Rightarrow> PolicyEnforcer" where
  "run_calls self calls = foldl after_call self calls"

fun is_reset :: "enforcer_call \<Rightarrow> bool" where
  "is_reset ResetMonthlyBudget = True"
| "is_reset c = False"

text \<open>The cost a call adds to the spend.\<close>

fun recorded_cost :: "enforcer_call \<Rightarrow> real" where
  "recorded_cost (RecordUsage prov model tks_in tks_out cost latency ok reason) = cost"
| "recorded_cost c = 0"

text \<open>An enforcer made on 2025-01-01 that has recorded a usage of five dollars.\<close>

definition spent_enforcer :: PolicyEnforcer where
  "spent_enforcer =
     record_usage (PolicyEnforcer_init (clock_at 0 0) (TenantPolicy_default ''test''))
       (clock_at 0 1) ''openai'' ''gpt-4o'' 1000 500 5 1200 True None"

section \<open>The collector: definitions for its properties\<close>

text \<open>\<^verbatim>\<open>LLMRequestMetrics(request_id=.., tenant_id=.., provider=.., model=..)\<close> made at
  the time \<open>ts\<close>: every other field at its default.\<close>

definition LLMRequestMetrics_default ::
  "string \<Rightarrow> string \<Rightarrow> string \<Rightarrow> string \<Rightarrow> int \<Rightarrow> LLMRequestMetrics"
where
  "LLMRequestMetrics_default rid tenant prov model ts =
    \<lparr>request_id = rid, m_tenant_id = tenant, m_provider = prov, m_model = model,
     user_id = None, input_tokens = 0, output_tokens = 0, total_tokens = 0,
     latency_ms = 0, time_to_first_token_ms = None, cost_usd = 0, timestamp = ts,
     success = True, error_type = None, error_message = None, endpoint = None,
     streaming = False, cached = False\<rparr>"

text \<open>The collector after a sequence of \<^verbatim>\<open>record\<close> calls on a new collector.\<close>

definition recorded :: "int \<Rightarrow> LLMRequestMetrics list \<Rightarrow> TelemetryCollector" where
  "recorded mh ms = foldl record_metrics (TelemetryCollector_init mh) ms"

text \<open>The rates the cost of a model is computed from: those of the first of the
  model's name and its name after \<^verbatim>\<open>azure-\<close>, \<^verbatim>\<open>claude-\<close> and \<^verbatim>\<open>gpt-\<close> that is a
  key of the pricing table.\<close>

definition found_rates :: "string \<Rightarrow> (real \<times> real) option" where
  "found_rates model =
    (case filter (\<lambda>r. r \<noteq> None)
            (map (map_of MODEL_COSTS)
               [model, ''azure-'' @ model, ''claude-'' @ model, ''gpt-'' @ model]) of
       [] \<Rightarrow> None
     | r # rs \<Rightarrow> r)"

text \<open>The percentile in the words of the specification: the value at the index
  \<open>(n - 1) * p / 100\<close> when the index is integral, the linear interpolation between the
  values at its floor and at its ceiling otherwise.\<close>

definition spec_percentile :: "real list \<Rightarrow> int \<Rightarrow> real" where
  "spec_percentile vals p =
    (let idx = (of_nat (length vals) - 1) * of_int p / (100::real) in
     if of_int \<lfloor>idx\<rfloor> = idx then vals ! nat \<lfloor>idx\<rfloor>
     else vals ! nat \<lfloor>idx\<rfloor>
          + (vals ! nat \<lceil>idx\<rceil> - vals ! nat \<lfloor>idx\<rfloor>) * (idx - of_int \<lfloor>idx\<rfloor>))"

text \<open>The collector of \<^verbatim>\<open>test_get_stats_latency_percentiles\<close>: ten requests with the
  latencies 100, 200, ..., 1000, recorded on 2025-01-01 at midnight.\<close>

definition latency_request :: "int \<Rightarrow> LLMRequestMetrics" where
  "latency_request l =
    (LLMRequestMetrics_default ''req'' ''tenant-123'' ''openai'' ''gpt-4o''
       (739251 * 86400000000))
      \<lparr>input_tokens := 100, output_tokens := 50, latency_ms := of_int l\<rparr>"


text \<open>A request for the model \<^verbatim>\<open>4o\<close>, which is no key of the pricing table, with a
  thousand tokens each way and no cost set.\<close>

definition request_4o :: LLMRequestMetrics where
  "request_4o =
    (LLMRequestMetrics_default ''req-1'' ''tenant-123'' ''openai'' ''4o''
       (739251 * 86400000000))
      \<lparr>input_tokens := 1000, output_tokens := 1000, total_tokens := 2000\<rparr>"

text \<open>A request of a tenant with nothing but its identity set.\<close>

definition tenant_request :: "string \<Rightarrow> string \<Rightarrow> LLMRequestMetrics" where
  "tenant_request rid tenant =
    LLMRequestMetrics_default rid tenant ''openai'' ''gpt-4o'' (739251 * 86400000000)"

text \<open>The request of \<^verbatim>\<open>test_automatic_cost_calculation\<close>.\<close>

definition request_gpt4o :: LLMRequestMetrics where
  "request_gpt4o =
    (LLMRequestMetrics_default ''req-1'' ''tenant-123'' ''openai'' ''gpt-4o''
       (739251 * 86400000000))
      \<lparr>input_tokens := 1000, output_tokens := 500, total_tokens := 1500\<rparr>"

text \<open>A collector that holds one request, recorded on 2025-01-01 at midnight, and the
  time so many minutes after that midnight.\<close>

definition one_request :: TelemetryCollector where
  "one_request = recorded 10000 [latency_request 100]"

definition minutes_after :: "int \<Rightarrow> int" where
  "minutes_after k = 739251 * 86400000000 + k * 60000000"

section \<open>Exception classes\<close>

lemma mro_FallbackToLocalError:
  "mro C_FallbackToLocalError = [C_FallbackToLocalError, C_Exception, C_BaseException]"
  by simp

text \<open>
  C9. \<open>FallbackToLocalError\<close> is not a subclass of \<open>PolicyViolationError\<close>: a handler
  for \<open>PolicyViolationError\<close>, or for one of its subclasses \<open>ProviderDisabledError\<close>,
  \<open>BudgetExceededError\<close> and \<open>RateLimitExceededError\<close>, does not catch the fallback
  signal, while a handler for \<open>PolicyViolationError\<close> catches every other error of the
  enforcer's rules.
\<close>

theorem C9_fallback_not_policy_violation:
  "\<not> issubclass C_FallbackToLocalError C_PolicyViolationError
   \<and> \<not> catches C_PolicyViolationError (FallbackToLocalError s)
   \<and> \<not> catches C_ProviderDisabledError (FallbackToLocalError s)
   \<and> \<not> catches C_BudgetExceededError (FallbackToLocalError s)
   \<and> \<not> catches C_RateLimitExceededError (FallbackToLocalError s)
   \<and> catches C_FallbackToLocalError (FallbackToLocalError s)
   \<and> catches C_PolicyViolationError ProviderDisabledError
   \<and> catches C_PolicyViolationError (BudgetExceededError s)
   \<and> catches C_PolicyViolationError (RateLimitExceededError k)
   \<and> catches C_PolicyViolationError (PolicyViolationError v)"
  by (simp add: catches_def issubclass_def LLMError_base_def)

section \<open>The enforcer: supporting lemmas\<close>

lemma tier_exceeds_limit_rank: "tier_exceeds_limit a b = (tier_rank a > tier_rank b)"
  by (cases a; cases b) (simp_all add: tier_exceeds_limit_def tier_order_def)

lemma reset_fields [simp]:
  "policy (reset_daily_budget_if_needed self clk) = policy self"
  "monthly_spend (reset_daily_budget_if_needed self clk) = monthly_spend self"
  "rate_limit_state (reset_daily_budget_if_needed self clk) = rate_limit_state self"
  "daily_spend (reset_daily_budget_if_needed self clk) = spend_today self clk"
  by (simp_all add: reset_daily_budget_if_needed_def spend_today_def Let_def)

lemma budget_error_reset [simp]:
  "budget_error (reset_daily_budget_if_needed self clk) sc = budget_error self sc"
  by (simp add: budget_error_def)

lemma window_reset [simp]:
  "window_requests (reset_daily_budget_if_needed self clk) c prov = window_requests self c prov"
  "window_tokens (reset_daily_budget_if_needed self clk) c prov = window_tokens self c prov"
  by (simp_all add: window_requests_def window_tokens_def)

lemma policy_for_reset [simp]:
  "policy_for (reset_daily_budget_if_needed self clk) prov = policy_for self prov"
  by (simp add: policy_for_def)

lemma check_rate_limits_fst:
  "fst (check_rate_limits self clk prov pp tks) =
    (if rate_limit_rpm pp > 0 \<and> int (length (window_requests self clk prov)) \<ge> rate_limit_rpm pp
     then Inl (RateLimitExceededError RPM)
     else if rate_limit_tpm pp > 0
            \<and> sum_list (map snd (window_tokens self clk prov)) + tks > rate_limit_tpm pp
     then Inl (RateLimitExceededError TPM)
     else Inr ())"
  by (cases "rate_limit_state self prov")
     (simp_all add: check_rate_limits_def window_requests_def window_tokens_def Let_def)

lemma check_rate_limits_snd:
  "snd (check_rate_limits self clk prov pp tks) =
    (if fst (check_rate_limits self clk prov pp tks) = Inr ()
     then self\<lparr>rate_limit_state := (rate_limit_state self)(prov \<mapsto>
               \<lparr>requests = window_requests self clk prov @ [time_time clk],
                tokens = window_tokens self clk prov @ [(time_time clk, tks)]\<rparr>)\<rparr>
     else self\<lparr>rate_limit_state := (rate_limit_state self)(prov \<mapsto>
               \<lparr>requests = window_requests self clk prov,
                tokens = window_tokens self clk prov\<rparr>)\<rparr>)"
  by (cases "rate_limit_state self prov")
     (simp_all add: check_rate_limits_def window_requests_def window_tokens_def Let_def)

lemma first_failure_fails_if:
  "first_failure (fails_if b e # rs) = (if b then Some e else first_failure rs)"
  by (simp add: fails_if_def)

lemma fst_rate_case:
  "fst (case x of (Inl err, self2) \<Rightarrow> (Inl err, self2)
        | (Inr u, self2) \<Rightarrow> if b then (Inl e, self2) else (Inr (), self2))
   = (case fst x of Inl err \<Rightarrow> Inl err | Inr u \<Rightarrow> if b then Inl e else Inr ())"
  by (cases x) (simp split: sum.splits)

lemma snd_rate_case:
  "snd (case x of (Inl err, self2) \<Rightarrow> (Inl err, self2)
        | (Inr u, self2) \<Rightarrow> if b then (Inl e, self2) else (Inr (), self2))
   = snd x"
  by (cases x) (simp split: sum.splits)

text \<open>With a provider the literal accepts, the construction of the default policy
  succeeds and the call runs through its checks.\<close>

lemma validate_request_literal:
  assumes "prov \<in> set PROVIDER_LITERAL"
  shows "validate_request self clk prov model tks reason =
    (let provider_policy = policy_for self prov in
     if \<not> enabled provider_policy then (Inl ProviderDisabledError, self)
     else if denied_models provider_policy \<noteq> [] \<and> model \<in> set (denied_models provider_policy)
       then (Inl (PolicyViolationError ModelDenied), self)
     else if allowed_models provider_policy \<noteq> [] \<and> model \<notin> set (allowed_models provider_policy)
       then (Inl (PolicyViolationError ModelNotAllowed), self)
     else if (case cost_tier_limit provider_policy of
                None \<Rightarrow> False
              | Some limit_tier \<Rightarrow>
                  (case map_of MODEL_COST_TIERS model of
                     None \<Rightarrow> False
                   | Some model_tier \<Rightarrow> tier_exceeds_limit model_tier limit_tier))
       then (Inl (PolicyViolationError TierExceedsLimit), self)
     else if tks > max_tokens_per_request provider_policy
       then (Inl (PolicyViolationError TokenLimit), self)
     else
      (let estimated_cost = estimate_cost model tks 0.7 in
       if max_cost_per_request provider_policy > 0
          \<and> estimated_cost > max_cost_per_request provider_policy
       then (Inl (PolicyViolationError CostLimit), self)
       else
        (let self1 = reset_daily_budget_if_needed self clk in
         if (case daily_budget_usd (policy self1) of
               None \<Rightarrow> False
             | Some d \<Rightarrow> d \<noteq> 0 \<and> daily_spend self1 + estimated_cost > d)
         then (Inl (budget_error self1 Daily), self1)
         else if monthly_spend self1 + estimated_cost > monthly_budget_usd (policy self1)
         then (Inl (budget_error self1 Monthly), self1)
         else
          (case check_rate_limits self1 clk prov provider_policy tks of
             (Inl err, self2) \<Rightarrow> (Inl err, self2)
           | (Inr u, self2) \<Rightarrow>
               if require_reason provider_policy \<and> (reason = None \<or> reason = Some [])
               then (Inl (PolicyViolationError ReasonRequired), self2)
               else (Inr (), self2)))))"
  using assms
  unfolding validate_request_def ProviderPolicy_default_def policy_for_def
  by (simp only: if_True sum.case)

text \<open>The pairs of a result and an enforcer that a call can end in.\<close>

lemma validate_request_outcomes:
  assumes lit: "prov \<in> set PROVIDER_LITERAL"
  shows "validate_request self clk prov model tks reason \<in>
    {(Inl ProviderDisabledError, self),
     (Inl (PolicyViolationError ModelDenied), self),
     (Inl (PolicyViolationError ModelNotAllowed), self),
     (Inl (PolicyViolationError TierExceedsLimit), self),
     (Inl (PolicyViolationError TokenLimit), self),
     (Inl (PolicyViolationError CostLimit), self),
     (Inl (budget_error self Daily), reset_daily_budget_if_needed self clk),
     (Inl (budget_error self Monthly), reset_daily_budget_if_needed self clk),
     (Inl (RateLimitExceededError RPM),
      (reset_daily_budget_if_needed self clk)\<lparr>rate_limit_state :=
         (rate_limit_state self)(prov \<mapsto>
            \<lparr>requests = window_requests self clk prov,
             tokens = window_tokens self clk prov\<rparr>)\<rparr>),
     (Inl (RateLimitExceededError TPM),
      (reset_daily_budget_if_needed self clk)\<lparr>rate_limit_state :=
         (rate_limit_state self)(prov \<mapsto>
            \<lparr>requests = window_requests self clk prov,
             tokens = window_tokens self clk prov\<rparr>)\<rparr>),
     (Inl (PolicyViolationError ReasonRequired),
      (reset_daily_budget_if_needed self clk)\<lparr>rate_limit_state :=
         (rate_limit_state self)(prov \<mapsto>
            \<lparr>requests = window_requests self clk prov @ [time_time clk],
             tokens = window_tokens self clk prov @ [(time_time clk, tks)]\<rparr>)\<rparr>),
     (Inr (),
      (reset_daily_budget_if_needed self clk)\<lparr>rate_limit_state :=
         (rate_limit_state self)(prov \<mapsto>
            \<lparr>requests = window_requests self clk prov @ [time_time clk],
             tokens = window_tokens self clk prov @ [(time_time clk, tks)]\<rparr>)\<rparr>)}"
proof -
  define pp where "pp = policy_for self prov"
  define cost where "cost = estimate_cost model tks 0.7"
  define s1 where "s1 = reset_daily_budget_if_needed self clk"
  define b1 where "b1 = (\<not> enabled pp)"
  define b2 where "b2 = (denied_models pp \<noteq> [] \<and> model \<in> set (denied_models pp))"
  define b3 where "b3 = (allowed_models pp \<noteq> [] \<and> model \<notin> set (allowed_models pp))"
  define b4 where "b4 = (case cost_tier_limit pp of
                None \<Rightarrow> False
              | Some limit_tier \<Rightarrow>
                  (case map_of MODEL_COST_TIERS model of
                     None \<Rightarrow> False
                   | Some model_tier \<Rightarrow> tier_exceeds_limit model_tier limit_tier))"
  define b5 where "b5 = (tks > max_tokens_per_request pp)"
  define b6 where "b6 = (max_cost_per_request pp > 0 \<and> cost > max_cost_per_request pp)"
  define b7 where "b7 = (case daily_budget_usd (policy s1) of
               None \<Rightarrow> False
             | Some d \<Rightarrow> d \<noteq> 0 \<and> daily_spend s1 + cost > d)"
  define b8 where "b8 = (monthly_spend s1 + cost > monthly_budget_usd (policy s1))"
  define b11 where "b11 = (require_reason pp \<and> (reason = None \<or> reason = Some []))"
  define x where "x = check_rate_limits s1 clk prov pp tks"
  have be: "budget_error s1 sc = budget_error self sc" for sc
    by (simp add: s1_def)
  have chain: "validate_request self clk prov model tks reason =
    (if b1 then (Inl ProviderDisabledError, self)
     else if b2 then (Inl (PolicyViolationError ModelDenied), self)
     else if b3 then (Inl (PolicyViolationError ModelNotAllowed), self)
     else if b4 then (Inl (PolicyViolationError TierExceedsLimit), self)
     else if b5 then (Inl (PolicyViolationError TokenLimit), self)
     else if b6 then (Inl (PolicyViolationError CostLimit), self)
     else if b7 then (Inl (budget_error self Daily), s1)
     else if b8 then (Inl (budget_error self Monthly), s1)
     else (case x of
             (Inl err, self2) \<Rightarrow> (Inl err, self2)
           | (Inr u, self2) \<Rightarrow>
               if b11 then (Inl (PolicyViolationError ReasonRequired), self2)
               else (Inr (), self2)))"
    unfolding validate_request_literal[OF lit] Let_def pp_def[symmetric] cost_def[symmetric]
      s1_def[symmetric]
    unfolding be b1_def[symmetric] b2_def[symmetric] b3_def[symmetric] b4_def[symmetric]
      b5_def[symmetric] b6_def[symmetric] b7_def[symmetric] b8_def[symmetric]
      b11_def[symmetric] x_def[symmetric]
    by (rule refl)
  define pruned where "pruned = s1\<lparr>rate_limit_state := (rate_limit_state self)(prov \<mapsto>
               \<lparr>requests = window_requests self clk prov,
                tokens = window_tokens self clk prov\<rparr>)\<rparr>"
  define appended where "appended = s1\<lparr>rate_limit_state := (rate_limit_state self)(prov \<mapsto>
               \<lparr>requests = window_requests self clk prov @ [time_time clk],
                tokens = window_tokens self clk prov @ [(time_time clk, tks)]\<rparr>)\<rparr>"
  have f: "fst x = Inl (RateLimitExceededError RPM) \<or> fst x = Inl (RateLimitExceededError TPM)
      \<or> fst x = Inr ()"
    unfolding x_def check_rate_limits_fst by simp
  have s: "snd x = (if fst x = Inr () then appended else pruned)"
    unfolding x_def check_rate_limits_snd appended_def pruned_def by (simp add: s1_def)
  have "x = (fst x, snd x)" by simp
  then have xs: "x = (Inl (RateLimitExceededError RPM), pruned)
      \<or> x = (Inl (RateLimitExceededError TPM), pruned) \<or> x = (Inr (), appended)"
    using f s by metis
  have "validate_request self clk prov model tks reason \<in>
    {(Inl ProviderDisabledError, self),
     (Inl (PolicyViolationError ModelDenied), self),
     (Inl (PolicyViolationError ModelNotAllowed), self),
     (Inl (PolicyViolationError TierExceedsLimit), self),
     (Inl (PolicyViolationError TokenLimit), self),
     (Inl (PolicyViolationError CostLimit), self),
     (Inl (budget_error self Daily), s1),
     (Inl (budget_error self Monthly), s1),
     (Inl (RateLimitExceededError RPM), pruned),
     (Inl (RateLimitExceededError TPM), pruned),
     (Inl (PolicyViolationError ReasonRequired), appended),
     (Inr (), appended)}"
    using xs unfolding chain by (elim disjE) simp_all
  then show ?thesis
    unfolding s1_def pruned_def appended_def .
qed

text \<open>The result and the enforcer after the call, by the first rule of the
  specification that fails. The code leaves the daily rule out when the daily budget is
  0.0, so the two agree where such a budget would not be exceeded.\<close>

lemma validate_request_by_rules:
  assumes lit: "prov \<in> set PROVIDER_LITERAL"
    and zero: "daily_budget_usd (policy self) = Some 0 \<longrightarrow>
                 \<not> spend_today self clk + estimate_cost model tks 0.7 > 0"
  shows "fst (validate_request self clk prov model tks reason)
          = outcome (first_failure (rule_failures self clk prov model tks reason))"
    and "snd (validate_request self clk prov model tks reason) =
    (if first_failure (take 6 (rule_failures self clk prov model tks reason)) \<noteq> None then self
     else if first_failure (take 8 (rule_failures self clk prov model tks reason)) \<noteq> None
       then reset_daily_budget_if_needed self clk
     else snd (check_rate_limits (reset_daily_budget_if_needed self clk) clk prov
                 (policy_for self prov) tks))"
proof -
  define pp where "pp = policy_for self prov"
  define cost where "cost = estimate_cost model tks 0.7"
  define s1 where "s1 = reset_daily_budget_if_needed self clk"
  define b1 where "b1 = (\<not> enabled pp)"
  define b2 where "b2 = (model \<in> set (denied_models pp))"
  define b3 where "b3 = (allowed_models pp \<noteq> [] \<and> model \<notin> set (allowed_models pp))"
  define b4 where "b4 = (case (cost_tier_limit pp, map_of MODEL_COST_TIERS model) of
              (Some limit_tier, Some model_tier) \<Rightarrow> tier_rank model_tier > tier_rank limit_tier
            | _ \<Rightarrow> False)"
  define b5 where "b5 = (tks > max_tokens_per_request pp)"
  define b6 where "b6 = (max_cost_per_request pp > 0 \<and> cost > max_cost_per_request pp)"
  define b7 where "b7 = (case daily_budget_usd (policy self) of
              None \<Rightarrow> False
            | Some d \<Rightarrow> spend_today self clk + cost > d)"
  define b8 where "b8 = (monthly_spend self + cost > monthly_budget_usd (policy self))"
  define b9 where "b9 = (rate_limit_rpm pp > 0
            \<and> int (length (window_requests self clk prov)) \<ge> rate_limit_rpm pp)"
  define b10 where "b10 = (rate_limit_tpm pp > 0
            \<and> sum_list (map snd (window_tokens self clk prov)) + tks > rate_limit_tpm pp)"
  define b11 where "b11 = (require_reason pp \<and> (reason = None \<or> reason = Some []))"
  note bs = b1_def b2_def b3_def b4_def b5_def b6_def b7_def b8_def b9_def b10_def b11_def
  have c4: "(case cost_tier_limit pp of
                None \<Rightarrow> False
              | Some limit_tier \<Rightarrow>
                  (case map_of MODEL_COST_TIERS model of
                     None \<Rightarrow> False
                   | Some model_tier \<Rightarrow> tier_exceeds_limit model_tier limit_tier)) = b4"
    by (simp add: b4_def tier_exceeds_limit_rank split: option.splits)
  have c2: "(denied_models pp \<noteq> [] \<and> model \<in> set (denied_models pp)) = b2"
    by (auto simp: b2_def)
  have c7: "(case daily_budget_usd (policy s1) of
               None \<Rightarrow> False
             | Some d \<Rightarrow> d \<noteq> 0 \<and> daily_spend s1 + cost > d) = b7"
    using zero by (cases "daily_budget_usd (policy self)") (auto simp: b7_def s1_def cost_def)
  have c8: "(monthly_spend s1 + cost > monthly_budget_usd (policy s1)) = b8"
    by (simp add: b8_def s1_def)
  have c9: "fst (check_rate_limits s1 clk prov pp tks)
      = (if b9 then Inl (RateLimitExceededError RPM)
         else if b10 then Inl (RateLimitExceededError TPM) else Inr ())"
    by (simp add: check_rate_limits_fst b9_def b10_def s1_def)
  have be: "budget_error s1 sc = budget_error self sc" for sc
    by (simp add: s1_def)
  have chain: "validate_request self clk prov model tks reason =
    (if b1 then (Inl ProviderDisabledError, self)
     else if b2 then (Inl (PolicyViolationError ModelDenied), self)
     else if b3 then (Inl (PolicyViolationError ModelNotAllowed), self)
     else if b4 then (Inl (PolicyViolationError TierExceedsLimit), self)
     else if b5 then (Inl (PolicyViolationError TokenLimit), self)
     else if b6 then (Inl (PolicyViolationError CostLimit), self)
     else if b7 then (Inl (budget_error self Daily), s1)
     else if b8 then (Inl (budget_error self Monthly), s1)
     else (case check_rate_limits s1 clk prov pp tks of
             (Inl err, self2) \<Rightarrow> (Inl err, self2)
           | (Inr u, self2) \<Rightarrow>
               if b11 then (Inl (PolicyViolationError ReasonRequired), self2)
               else (Inr (), self2)))"
    unfolding validate_request_literal[OF lit] Let_def pp_def[symmetric] cost_def[symmetric]
      s1_def[symmetric]
    unfolding c2 c4 c7 c8 be b1_def[symmetric] b3_def[symmetric] b5_def[symmetric]
      b6_def[symmetric] b11_def[symmetric]
    by (rule refl)
  have R: "rule_failures self clk prov model tks reason =
     [fails_if b1 ProviderDisabledError,
      fails_if b2 (PolicyViolationError ModelDenied),
      fails_if b3 (PolicyViolationError ModelNotAllowed),
      fails_if b4 (PolicyViolationError TierExceedsLimit),
      fails_if b5 (PolicyViolationError TokenLimit),
      fails_if b6 (PolicyViolationError CostLimit),
      fails_if b7 (budget_error self Daily),
      fails_if b8 (budget_error self Monthly),
      fails_if b9 (RateLimitExceededError RPM),
      fails_if b10 (RateLimitExceededError TPM),
      fails_if b11 (PolicyViolationError ReasonRequired)]"
    unfolding rule_failures_def Let_def pp_def[symmetric] cost_def[symmetric]
    unfolding bs[symmetric]
    by (rule refl)
  show "fst (validate_request self clk prov model tks reason)
          = outcome (first_failure (rule_failures self clk prov model tks reason))"
    unfolding chain R
    by (simp add: first_failure_fails_if fst_rate_case c9 outcome_def)
  show "snd (validate_request self clk prov model tks reason) =
    (if first_failure (take 6 (rule_failures self clk prov model tks reason)) \<noteq> None then self
     else if first_failure (take 8 (rule_failures self clk prov model tks reason)) \<noteq> None
       then reset_daily_budget_if_needed self clk
     else snd (check_rate_limits (reset_daily_budget_if_needed self clk) clk prov
                 (policy_for self prov) tks))"
    unfolding chain R pp_def[symmetric] s1_def[symmetric]
    by (simp add: first_failure_fails_if snd_rate_case)
qed

section \<open>The enforcer: the order of the checks\<close>

lemma validate_request_not_literal:
  assumes "prov \<notin> set PROVIDER_LITERAL"
  shows "validate_request self clk prov model tks reason = (Inl ValidationError, self)"
  using assms by (simp add: validate_request_def ProviderPolicy_default_def)

text \<open>
  C1, as the code has it by design. For a call whose provider is one of the names the
  provider literal accepts, at a tenant whose daily budget is not 0.0, the result of
  \<open>validate_request\<close> is the error of the first rule that fails, in the order provider
  enabled, model denied, model not allowed, cost tier, token ceiling, cost ceiling, daily
  budget, monthly budget, requests per minute, tokens per minute, reason required, and
  success when none fails. Nothing of a later rule is evaluated: when one of the first
  six rules fails the enforcer is unchanged, and when one of the first eight fails the
  rate limiter has not been touched. For a provider outside the literal for which the
  tenant has no entry, the default policy cannot be made and the call raises the
  validation error before any rule, leaving the enforcer unchanged. The daily rule is
  the rule of the specification, a daily budget that is set and would be exceeded; the
  tenant whose daily budget is 0.0, where the code passes over that rule, is the
  subject of C2 and is left out here, as is the tenant that keeps an entry under a name
  outside the literal.
\<close>

theorem C1_checks_in_order:
  "(prov \<in> set PROVIDER_LITERAL \<and> daily_budget_usd (policy self) \<noteq> Some 0 \<longrightarrow>
      fst (validate_request self clk prov model tks reason)
         = outcome (first_failure (rule_failures self clk prov model tks reason))
      \<and> (first_failure (take 6 (rule_failures self clk prov model tks reason)) \<noteq> None
            \<longrightarrow> snd (validate_request self clk prov model tks reason) = self)
      \<and> (first_failure (take 8 (rule_failures self clk prov model tks reason)) \<noteq> None
            \<longrightarrow> rate_limit_state (snd (validate_request self clk prov model tks reason))
                  = rate_limit_state self))
   \<and> (prov \<notin> set PROVIDER_LITERAL \<and> provider_policies (policy self) prov = None \<longrightarrow>
        validate_request self clk prov model tks reason = (Inl ValidationError, self))"
proof (intro conjI impI)
  assume a: "prov \<in> set PROVIDER_LITERAL \<and> daily_budget_usd (policy self) \<noteq> Some 0"
  then have lit: "prov \<in> set PROVIDER_LITERAL"
    and zero: "daily_budget_usd (policy self) = Some 0 \<longrightarrow>
                 \<not> spend_today self clk + estimate_cost model tks 0.7 > 0"
    by simp_all
  note r = validate_request_by_rules[OF lit zero]
  show "fst (validate_request self clk prov model tks reason)
         = outcome (first_failure (rule_failures self clk prov model tks reason))"
    by (rule r(1))
  {
    assume "first_failure (take 6 (rule_failures self clk prov model tks reason)) \<noteq> None"
    then show "snd (validate_request self clk prov model tks reason) = self"
      unfolding r(2) by simp
  }
  {
    assume "first_failure (take 8 (rule_failures self clk prov model tks reason)) \<noteq> None"
    then show "rate_limit_state (snd (validate_request self clk prov model tks reason))
                  = rate_limit_state self"
      unfolding r(2) by simp
  }
next
  assume "prov \<notin> set PROVIDER_LITERAL \<and> provider_policies (policy self) prov = None"
  then show "validate_request self clk prov model tks reason = (Inl ValidationError, self)"
    by (simp add: validate_request_not_literal)
qed

text \<open>A call that breaks three rules at once (the model is denied, the tokens exceed
  the ceiling, the reason is missing) raises the error of the first of them and leaves
  the enforcer as it was; and a call for a provider the literal does not have, at a
  tenant with no entry for it, raises the validation error.\<close>

theorem C1_checks_in_order_witness:
  "''openai'' \<in> set PROVIDER_LITERAL
   \<and> daily_budget_usd (policy (PolicyEnforcer_init (clock_at 0 0)
          ((TenantPolicy_default ''test'')\<lparr>provider_policies :=
             [''openai'' \<mapsto> (default_fields ''openai'')\<lparr>denied_models := [''gpt-4''],
                max_tokens_per_request := 1000, require_reason := True\<rparr>]\<rparr>))) \<noteq> Some 0
   \<and> fst (validate_request
        (PolicyEnforcer_init (clock_at 0 0)
          ((TenantPolicy_default ''test'')\<lparr>provider_policies :=
             [''openai'' \<mapsto> (default_fields ''openai'')\<lparr>denied_models := [''gpt-4''],
                max_tokens_per_request := 1000, require_reason := True\<rparr>]\<rparr>))
        (clock_at 0 5) ''openai'' ''gpt-4'' 5000 None)
      = Inl (PolicyViolationError ModelDenied)
   \<and> snd (validate_request
        (PolicyEnforcer_init (clock_at 0 0)
          ((TenantPolicy_default ''test'')\<lparr>provider_policies :=
             [''openai'' \<mapsto> (default_fields ''openai'')\<lparr>denied_models := [''gpt-4''],
                max_tokens_per_request := 1000, require_reason := True\<rparr>]\<rparr>))
        (clock_at 0 5) ''openai'' ''gpt-4'' 5000 None)
      = PolicyEnforcer_init (clock_at 0 0)
          ((TenantPolicy_default ''test'')\<lparr>provider_policies :=
             [''openai'' \<mapsto> (default_fields ''openai'')\<lparr>denied_models := [''gpt-4''],
                max_tokens_per_request := 1000, require_reason := True\<rparr>]\<rparr>)
   \<and> ''gemini'' \<notin> set PROVIDER_LITERAL
   \<and> validate_request (PolicyEnforcer_init (clock_at 0 0) (TenantPolicy_default ''test''))
        (clock_at 0 5) ''gemini'' ''gemini-pro'' 100 None
      = (Inl ValidationError, PolicyEnforcer_init (clock_at 0 0) (TenantPolicy_default ''test''))"
proof -
  let ?e = "PolicyEnforcer_init (clock_at 0 0)
          ((TenantPolicy_default ''test'')\<lparr>provider_policies :=
             [''openai'' \<mapsto> (default_fields ''openai'')\<lparr>denied_models := [''gpt-4''],
                max_tokens_per_request := 1000, require_reason := True\<rparr>]\<rparr>)"
  let ?g = "PolicyEnforcer_init (clock_at 0 0) (TenantPolicy_default ''test'')"
  have lit: "''openai'' \<in> set PROVIDER_LITERAL"
    by (simp add: PROVIDER_LITERAL_def)
  have daily: "daily_budget_usd (policy ?e) \<noteq> Some 0"
    by (simp add: PolicyEnforcer_init_def TenantPolicy_default_def)
  have fs: "take 2 (rule_failures ?e (clock_at 0 5) ''openai'' ''gpt-4'' 5000 None)
      = [None, Some (PolicyViolationError ModelDenied)]"
    by (simp add: rule_failures_def policy_for_def PolicyEnforcer_init_def
        TenantPolicy_default_def default_fields_def fails_if_def Let_def)
  have nolit: "''gemini'' \<notin> set PROVIDER_LITERAL"
    by (simp add: PROVIDER_LITERAL_def)
  have noentry: "provider_policies (policy ?g) ''gemini'' = None"
    by (simp add: PolicyEnforcer_init_def TenantPolicy_default_def)
  have first: "fst (validate_request ?e (clock_at 0 5) ''openai'' ''gpt-4'' 5000 None)
      = Inl (PolicyViolationError ModelDenied)
    \<and> snd (validate_request ?e (clock_at 0 5) ''openai'' ''gpt-4'' 5000 None) = ?e"
    using C1_checks_in_order[of "''openai''" ?e "clock_at 0 5" "''gpt-4''" 5000 None] lit daily fs
    by (simp add: rule_failures_def Let_def outcome_def)
  have second: "validate_request ?g (clock_at 0 5) ''gemini'' ''gemini-pro'' 100 None
      = (Inl ValidationError, ?g)"
    using C1_checks_in_order[of "''gemini''" ?g "clock_at 0 5" "''gemini-pro''" 100 None]
      nolit noentry
    by blast
  show ?thesis
    using lit daily first nolit second by blast
qed

text \<open>
  C1 as the specification states it, for every call, fails at a provider outside the
  literal for which the tenant has no entry: no rule fails, and the call raises all the
  same, since the default policy for the provider cannot be made.
\<close>

theorem C1_counterexample:
  "fst (validate_request (PolicyEnforcer_init (clock_at 0 0) (TenantPolicy_default ''test''))
          (clock_at 0 5) ''gemini'' ''gemini-pro'' 100 None)
     \<noteq> outcome (first_failure (rule_failures
          (PolicyEnforcer_init (clock_at 0 0) (TenantPolicy_default ''test''))
          (clock_at 0 5) ''gemini'' ''gemini-pro'' 100 None))
   \<and> fst (validate_request (PolicyEnforcer_init (clock_at 0 0) (TenantPolicy_default ''test''))
          (clock_at 0 5) ''gemini'' ''gemini-pro'' 100 None)
     = Inl ValidationError
   \<and> outcome (first_failure (rule_failures
          (PolicyEnforcer_init (clock_at 0 0) (TenantPolicy_default ''test''))
          (clock_at 0 5) ''gemini'' ''gemini-pro'' 100 None))
     = Inr ()
   \<and> provider_policies (policy (PolicyEnforcer_init (clock_at 0 0)
        (TenantPolicy_default ''test''))) ''gemini'' = None"
proof -
  have v: "fst (validate_request self clk ''gemini'' model tks reason) = Inl ValidationError"
    for self clk model tks reason
    by (simp add: validate_request_def ProviderPolicy_default_def PROVIDER_LITERAL_def)
  have a: "outcome (first_failure (rule_failures
          (PolicyEnforcer_init (clock_at 0 0) (TenantPolicy_default ''test''))
          (clock_at 0 5) ''gemini'' ''gemini-pro'' 100 None))
     = Inr ()"
    by (simp add: rule_failures_def policy_for_def PolicyEnforcer_init_def
        TenantPolicy_default_def default_fields_def fails_if_def Let_def outcome_def
        estimate_cost_def MODEL_COSTS_def MODEL_COST_TIERS_def spend_today_def
        window_requests_def window_tokens_def clock_at_def date_of_def)
  have n: "provider_policies (policy (PolicyEnforcer_init (clock_at 0 0)
        (TenantPolicy_default ''test''))) ''gemini'' = None"
    by (simp add: PolicyEnforcer_init_def TenantPolicy_default_def)
  show ?thesis
    by (simp add: v a n)
qed

section \<open>The enforcer: what a call leaves in the rate limiter\<close>

text \<open>The conditions of the rules, read off the list.\<close>

lemma first_failure_None_iff: "first_failure fs = None \<longleftrightarrow> set fs \<subseteq> {None}"
  by (induction fs rule: first_failure.induct) auto

lemma first_failure_append:
  "first_failure (xs @ ys) = (case first_failure xs of None \<Rightarrow> first_failure ys | Some e \<Rightarrow> Some e)"
  by (induction xs rule: first_failure.induct) auto

lemma fails_if_Some: "Some e = fails_if c x \<Longrightarrow> e = x"
  by (simp add: fails_if_def split: if_splits)

lemma fails_if_None: "fails_if c x = None \<longleftrightarrow> \<not> c"
  by (simp add: fails_if_def)

lemma first_eight_rules:
  "take 8 (rule_failures self clk prov model tks reason) =
     [rule_failures self clk prov model tks reason ! 0,
      rule_failures self clk prov model tks reason ! 1,
      rule_failures self clk prov model tks reason ! 2,
      rule_failures self clk prov model tks reason ! 3,
      rule_failures self clk prov model tks reason ! 4,
      rule_failures self clk prov model tks reason ! 5,
      rule_failures self clk prov model tks reason ! 6,
      rule_failures self clk prov model tks reason ! 7]"
  by (simp add: rule_failures_def Let_def)

lemma rule_errors:
  "\<exists>c. rule_failures self clk prov model tks reason ! 0 = fails_if c ProviderDisabledError"
  "\<exists>c. rule_failures self clk prov model tks reason ! 1 = fails_if c (PolicyViolationError ModelDenied)"
  "\<exists>c. rule_failures self clk prov model tks reason ! 2 = fails_if c (PolicyViolationError ModelNotAllowed)"
  "\<exists>c. rule_failures self clk prov model tks reason ! 3 = fails_if c (PolicyViolationError TierExceedsLimit)"
  "\<exists>c. rule_failures self clk prov model tks reason ! 4 = fails_if c (PolicyViolationError TokenLimit)"
  "\<exists>c. rule_failures self clk prov model tks reason ! 5 = fails_if c (PolicyViolationError CostLimit)"
  "\<exists>c. rule_failures self clk prov model tks reason ! 6 = fails_if c (budget_error self Daily)"
  "\<exists>c. rule_failures self clk prov model tks reason ! 7 = fails_if c (budget_error self Monthly)"
  by (simp_all add: rule_failures_def Let_def) blast+

lemma rate_rules:
  "rule_failures self clk prov model tks reason ! 8 =
     fails_if (rate_limit_rpm (policy_for self prov) > 0
                \<and> int (length (window_requests self clk prov)) \<ge> rate_limit_rpm (policy_for self prov))
        (RateLimitExceededError RPM)"
  "rule_failures self clk prov model tks reason ! 9 =
     fails_if (rate_limit_tpm (policy_for self prov) > 0
                \<and> sum_list (map snd (window_tokens self clk prov)) + tks
                    > rate_limit_tpm (policy_for self prov))
        (RateLimitExceededError TPM)"
  "length (rule_failures self clk prov model tks reason) = 11"
  by (simp_all add: rule_failures_def Let_def)

lemma errors_of_first_eight:
  assumes "Some e \<in> set (take 8 (rule_failures self clk prov model tks reason))"
  shows "e \<noteq> PolicyViolationError ReasonRequired \<and> e \<noteq> RateLimitExceededError k"
proof -
  let ?fs = "rule_failures self clk prov model tks reason"
  from assms have "Some e = ?fs ! 0 \<or> Some e = ?fs ! 1 \<or> Some e = ?fs ! 2 \<or> Some e = ?fs ! 3
      \<or> Some e = ?fs ! 4 \<or> Some e = ?fs ! 5 \<or> Some e = ?fs ! 6 \<or> Some e = ?fs ! 7"
    unfolding first_eight_rules by simp
  then have "e \<in> {ProviderDisabledError, PolicyViolationError ModelDenied,
              PolicyViolationError ModelNotAllowed, PolicyViolationError TierExceedsLimit,
              PolicyViolationError TokenLimit, PolicyViolationError CostLimit,
              budget_error self Daily, budget_error self Monthly}"
    using rule_errors[of self clk prov model tks reason]
    by (elim disjE exE) (auto dest: fails_if_Some)
  then show ?thesis
    by (auto simp: budget_error_def split: if_splits)
qed

text \<open>A call that passes the rate limiter, whether it then succeeds or is refused for
  its missing reason, has written itself into the provider's window.\<close>

lemma validate_request_recorded:
  assumes lit: "prov \<in> set PROVIDER_LITERAL"
    and res: "fst (validate_request self clk prov model tks reason) = Inr ()
           \<or> fst (validate_request self clk prov model tks reason)
               = Inl (PolicyViolationError ReasonRequired)"
  shows "snd (validate_request self clk prov model tks reason) =
     (reset_daily_budget_if_needed self clk)\<lparr>rate_limit_state :=
        (rate_limit_state self)(prov \<mapsto>
               \<lparr>requests = window_requests self clk prov @ [time_time clk],
                tokens = window_tokens self clk prov @ [(time_time clk, tks)]\<rparr>)\<rparr>"
  using validate_request_outcomes[OF lit, of self clk model tks reason] res
  by (auto simp: budget_error_def split: if_splits)

text \<open>
  C10. When \<open>validate_request\<close> raises the policy violation of the missing reason, every
  earlier rule has passed, the rate limiter among them, and the request is already in
  the provider's window: its time stamp and its token count are appended to the
  entries of the trailing minute. A later validation whose minute still reaches back to
  the rejected call counts it, for the requests and for the tokens.
\<close>

theorem C10_rejected_for_reason_is_recorded:
  assumes "validate_request self clk prov model tks reason
             = (Inl (PolicyViolationError ReasonRequired), self')"
  shows "rate_limit_state self' prov =
           Some \<lparr>requests = window_requests self clk prov @ [time_time clk],
                 tokens = window_tokens self clk prov @ [(time_time clk, tks)]\<rparr>
       \<and> (\<forall>clk'. time_time clk' - 60 < time_time clk \<longrightarrow>
             int (length (window_requests self' clk' prov))
               = int (length (filter (\<lambda>t. t > time_time clk' - 60) (window_requests self clk prov))) + 1
           \<and> sum_list (map snd (window_tokens self' clk' prov))
               = sum_list (map snd (filter (\<lambda>(ts, tc). ts > time_time clk' - 60)
                                     (window_tokens self clk prov))) + tks)"
proof -
  have lit: "prov \<in> set PROVIDER_LITERAL"
    using assms validate_request_not_literal[of prov self clk model tks reason] by auto
  have "fst (validate_request self clk prov model tks reason)
          = Inl (PolicyViolationError ReasonRequired)"
    using assms by simp
  then have "snd (validate_request self clk prov model tks reason) =
     (reset_daily_budget_if_needed self clk)\<lparr>rate_limit_state :=
        (rate_limit_state self)(prov \<mapsto>
               \<lparr>requests = window_requests self clk prov @ [time_time clk],
                tokens = window_tokens self clk prov @ [(time_time clk, tks)]\<rparr>)\<rparr>"
    using validate_request_recorded[OF lit] by blast
  then have st: "rate_limit_state self' prov =
           Some \<lparr>requests = window_requests self clk prov @ [time_time clk],
                 tokens = window_tokens self clk prov @ [(time_time clk, tks)]\<rparr>"
    using assms by simp
  show ?thesis
    using st by (simp add: window_requests_def[of self'] window_tokens_def[of self'])
qed

section \<open>The enforcer: requests per minute\<close>

lemma validate_request_keeps [simp]:
  "policy (snd (validate_request self clk prov model tks reason)) = policy self"
  "monthly_spend (snd (validate_request self clk prov model tks reason)) = monthly_spend self"
  "usage_records (snd (validate_request self clk prov model tks reason)) = usage_records self"
proof -
  have "policy (snd (validate_request self clk prov model tks reason)) = policy self
      \<and> monthly_spend (snd (validate_request self clk prov model tks reason)) = monthly_spend self
      \<and> usage_records (snd (validate_request self clk prov model tks reason)) = usage_records self"
  proof (cases "prov \<in> set PROVIDER_LITERAL")
    case True
    show ?thesis
      using validate_request_outcomes[OF True, of self clk model tks reason]
      by (auto simp: reset_daily_budget_if_needed_def Let_def)
  next
    case False
    then show ?thesis by (simp add: validate_request_not_literal)
  qed
  then show "policy (snd (validate_request self clk prov model tks reason)) = policy self"
    and "monthly_spend (snd (validate_request self clk prov model tks reason)) = monthly_spend self"
    and "usage_records (snd (validate_request self clk prov model tks reason)) = usage_records self"
    by blast+
qed

lemma policy_for_validate_request [simp]:
  "policy_for (snd (validate_request self clk prov model tks reason)) p = policy_for self p"
  by (simp add: policy_for_def)

lemma reason_rule:
  "rule_failures self clk prov model tks reason ! 10 =
     fails_if (require_reason (policy_for self prov) \<and> (reason = None \<or> reason = Some []))
        (PolicyViolationError ReasonRequired)"
  by (simp add: rule_failures_def Let_def)

lemma daily_rule:
  "rule_failures self clk prov model tks reason ! 6 =
     fails_if (case daily_budget_usd (policy self) of
                  None \<Rightarrow> False
                | Some d \<Rightarrow> spend_today self clk + estimate_cost model tks 0.7 > d)
        (budget_error self Daily)"
  by (simp add: rule_failures_def Let_def)

text \<open>When no rule other than the limit of requests per minute fails, that limit alone
  decides the call.\<close>

lemma only_rpm_binding:
  assumes lit: "prov \<in> set PROVIDER_LITERAL"
    and others: "set (rule_failures self clk prov model tks reason)
                   \<subseteq> {None, Some (RateLimitExceededError RPM)}"
  shows "fst (validate_request self clk prov model tks reason) =
     (if rate_limit_rpm (policy_for self prov) > 0
         \<and> int (length (window_requests self clk prov)) \<ge> rate_limit_rpm (policy_for self prov)
      then Inl (RateLimitExceededError RPM) else Inr ())"
proof -
  let ?fs = "rule_failures self clk prov model tks reason"
  have "set (take 8 ?fs) \<subseteq> {None}"
  proof
    fix r assume r: "r \<in> set (take 8 ?fs)"
    then have "r \<in> set ?fs" by (rule in_set_takeD)
    then have "r = None \<or> r = Some (RateLimitExceededError RPM)" using others by auto
    then show "r \<in> {None}"
      using r errors_of_first_eight[of "RateLimitExceededError RPM" self clk prov model tks reason RPM]
      by auto
  qed
  then have t8: "first_failure (take 8 ?fs) = None"
    by (simp add: first_failure_None_iff)
  have split: "?fs = take 8 ?fs @ [?fs ! 8, ?fs ! 9, ?fs ! 10]"
    by (simp add: rule_failures_def Let_def)
  have in9: "?fs ! 9 \<in> set ?fs" and in10: "?fs ! 10 \<in> set ?fs"
    by (rule nth_mem, simp add: rate_rules(3))+
  have nine: "?fs ! 9 = None"
    using in9 others by (auto simp: rate_rules(2) fails_if_def split: if_splits)
  have ten: "?fs ! 10 = None"
    using in10 others by (auto simp: reason_rule fails_if_def split: if_splits)
  have "first_failure ?fs = first_failure (take 8 ?fs @ [?fs ! 8, ?fs ! 9, ?fs ! 10])"
    using split by simp
  also have "\<dots> = ?fs ! 8"
    unfolding first_failure_append t8 nine ten
    by (cases "?fs ! 8") simp_all
  finally have first: "first_failure ?fs = ?fs ! 8" .
  have "?fs ! 6 \<in> set ?fs"
    by (rule nth_mem) (simp add: rate_rules(3))
  then have seven: "?fs ! 6 = None"
    using others by (auto simp: daily_rule fails_if_def budget_error_def split: if_splits)
  have zero: "daily_budget_usd (policy self) = Some 0 \<longrightarrow>
                 \<not> spend_today self clk + estimate_cost model tks 0.7 > 0"
    using seven by (auto simp: daily_rule fails_if_None split: option.splits)
  show ?thesis
    unfolding validate_request_by_rules(1)[OF lit zero] first
    by (simp add: rate_rules(1) fails_if_def outcome_def)
qed

text \<open>
  C3. A provider whose policy has \<open>rate_limit_rpm = 2\<close> is validated three times,
  starting with no window for the provider, at times \<open>t1 \<le> t2 \<le> t3 < t1 + 60\<close>, and no
  rule other than the limit of requests per minute fails at any of the three calls.
  Then the first two calls succeed and the third raises the rate limit error of the
  requests per minute.
\<close>

theorem C3_third_request_in_the_minute:
  assumes lit: "prov \<in> set PROVIDER_LITERAL"
    and rpm: "rate_limit_rpm (policy_for e0 prov) = 2"
    and fresh: "rate_limit_state e0 prov = None"
    and t12: "time_time c1 \<le> time_time c2"
    and t23: "time_time c2 \<le> time_time c3"
    and t31: "time_time c3 < time_time c1 + 60"
    and e1: "e1 = snd (validate_request e0 c1 prov m1 n1 r1)"
    and e2: "e2 = snd (validate_request e1 c2 prov m2 n2 r2)"
    and o1: "set (rule_failures e0 c1 prov m1 n1 r1) \<subseteq> {None, Some (RateLimitExceededError RPM)}"
    and o2: "set (rule_failures e1 c2 prov m2 n2 r2) \<subseteq> {None, Some (RateLimitExceededError RPM)}"
    and o3: "set (rule_failures e2 c3 prov m3 n3 r3) \<subseteq> {None, Some (RateLimitExceededError RPM)}"
  shows "fst (validate_request e0 c1 prov m1 n1 r1) = Inr ()
       \<and> fst (validate_request e1 c2 prov m2 n2 r2) = Inr ()
       \<and> fst (validate_request e2 c3 prov m3 n3 r3) = Inl (RateLimitExceededError RPM)"
proof -
  have w0: "window_requests e0 c1 prov = []"
    using fresh by (simp add: window_requests_def)
  have r1: "fst (validate_request e0 c1 prov m1 n1 r1) = Inr ()"
    using only_rpm_binding[OF lit o1] rpm w0 by simp
  have s1: "rate_limit_state e1 prov =
      Some \<lparr>requests = [time_time c1], tokens = window_tokens e0 c1 prov @ [(time_time c1, n1)]\<rparr>"
    unfolding e1 using validate_request_recorded[OF lit, of e0 c1 m1 n1 r1] r1 w0 by simp
  have p1: "policy_for e1 prov = policy_for e0 prov"
    unfolding e1 by simp
  have w1: "window_requests e1 c2 prov = [time_time c1]"
    using s1 t12 t23 t31 by (simp add: window_requests_def)
  have r2: "fst (validate_request e1 c2 prov m2 n2 r2) = Inr ()"
    using only_rpm_binding[OF lit o2] rpm w1 p1 by simp
  have s2: "requests (the (rate_limit_state e2 prov)) = [time_time c1, time_time c2]"
    unfolding e2 using validate_request_recorded[OF lit, of e1 c2 m2 n2 r2] r2 w1 by simp
  have d2: "rate_limit_state e2 prov \<noteq> None"
    unfolding e2 using validate_request_recorded[OF lit, of e1 c2 m2 n2 r2] r2 by simp
  have p2: "policy_for e2 prov = policy_for e0 prov"
    unfolding e2 using p1 by simp
  have w2: "window_requests e2 c3 prov = [time_time c1, time_time c2]"
    using s2 d2 t12 t23 t31 by (auto simp: window_requests_def)
  have r3: "fst (validate_request e2 c3 prov m3 n3 r3) = Inl (RateLimitExceededError RPM)"
    using only_rpm_binding[OF lit o3] rpm w2 p2 by simp
  show ?thesis using r1 r2 r3 by simp
qed

lemmas enforcer_eval =
  validate_request_def ProviderPolicy_default_def PROVIDER_LITERAL_def default_fields_def
  PolicyEnforcer_init_def TenantPolicy_default_def check_rate_limits_def
  reset_daily_budget_if_needed_def estimate_cost_def MODEL_COSTS_def MODEL_COST_TIERS_def
  py_int_of_float_def clock_at_def date_of_def Let_def budget_error_def
  tier_exceeds_limit_def tier_order_def record_usage_def

lemmas rules_eval =
  rule_failures_def policy_for_def fails_if_def spend_today_def window_requests_def
  window_tokens_def

lemma rpm2_first:
  "validate_request rpm2_enforcer (clock_at 0 1) ''openai'' ''gpt-4o-mini'' 100 None
    = (Inr (), rpm2_enforcer\<lparr>rate_limit_state :=
        [''openai'' \<mapsto> \<lparr>requests = [time_time (clock_at 0 1)],
                          tokens = [(time_time (clock_at 0 1), 100)]\<rparr>]\<rparr>)"
  by (simp add: rpm2_enforcer_def enforcer_eval)

lemma rpm2_second:
  "validate_request
      (rpm2_enforcer\<lparr>rate_limit_state :=
        [''openai'' \<mapsto> \<lparr>requests = [time_time (clock_at 0 1)],
                          tokens = [(time_time (clock_at 0 1), 100)]\<rparr>]\<rparr>)
      (clock_at 0 2) ''openai'' ''gpt-4o-mini'' 100 None
    = (Inr (), rpm2_enforcer\<lparr>rate_limit_state :=
        [''openai'' \<mapsto> \<lparr>requests = [time_time (clock_at 0 1), time_time (clock_at 0 2)],
                          tokens = [(time_time (clock_at 0 1), 100),
                                    (time_time (clock_at 0 2), 100)]\<rparr>]\<rparr>)"
  by (simp add: rpm2_enforcer_def enforcer_eval)

text \<open>The scenario of \<^verbatim>\<open>test_rate_limit_rpm\<close>, with the three calls one, two and
  thirty seconds after the enforcer was made.\<close>

theorem C3_third_request_in_the_minute_witness:
  "''openai'' \<in> set PROVIDER_LITERAL
   \<and> rate_limit_rpm (policy_for rpm2_enforcer ''openai'') = 2
   \<and> rate_limit_state rpm2_enforcer ''openai'' = None
   \<and> time_time (clock_at 0 30) < time_time (clock_at 0 1) + 60
   \<and> fst (validate_request rpm2_enforcer (clock_at 0 1) ''openai'' ''gpt-4o-mini'' 100 None)
       = Inr ()
   \<and> fst (validate_request
            (snd (validate_request rpm2_enforcer (clock_at 0 1) ''openai'' ''gpt-4o-mini'' 100 None))
            (clock_at 0 2) ''openai'' ''gpt-4o-mini'' 100 None)
       = Inr ()
   \<and> fst (validate_request
            (snd (validate_request
               (snd (validate_request rpm2_enforcer (clock_at 0 1) ''openai'' ''gpt-4o-mini'' 100 None))
               (clock_at 0 2) ''openai'' ''gpt-4o-mini'' 100 None))
            (clock_at 0 30) ''openai'' ''gpt-4o-mini'' 100 None)
       = Inl (RateLimitExceededError RPM)"
proof -
  let ?e1 = "snd (validate_request rpm2_enforcer (clock_at 0 1) ''openai'' ''gpt-4o-mini'' 100 None)"
  let ?e2 = "snd (validate_request ?e1 (clock_at 0 2) ''openai'' ''gpt-4o-mini'' 100 None)"
  have lit: "''openai'' \<in> set PROVIDER_LITERAL"
    by (simp add: PROVIDER_LITERAL_def)
  have rpm: "rate_limit_rpm (policy_for rpm2_enforcer ''openai'') = 2"
    by (simp add: rpm2_enforcer_def policy_for_def PolicyEnforcer_init_def
        TenantPolicy_default_def default_fields_def)
  have fresh: "rate_limit_state rpm2_enforcer ''openai'' = None"
    by (simp add: rpm2_enforcer_def PolicyEnforcer_init_def)
  have t12: "time_time (clock_at 0 1) \<le> time_time (clock_at 0 2)"
    and t23: "time_time (clock_at 0 2) \<le> time_time (clock_at 0 30)"
    and t31: "time_time (clock_at 0 30) < time_time (clock_at 0 1) + 60"
    by (simp_all add: clock_at_def)
  have o1: "set (rule_failures rpm2_enforcer (clock_at 0 1) ''openai'' ''gpt-4o-mini'' 100 None)
              \<subseteq> {None, Some (RateLimitExceededError RPM)}"
    by (simp add: rpm2_enforcer_def rules_eval enforcer_eval)
  have o2: "set (rule_failures ?e1 (clock_at 0 2) ''openai'' ''gpt-4o-mini'' 100 None)
              \<subseteq> {None, Some (RateLimitExceededError RPM)}"
    unfolding rpm2_first snd_conv
    by (simp add: rpm2_enforcer_def rules_eval enforcer_eval)
  have o3: "set (rule_failures ?e2 (clock_at 0 30) ''openai'' ''gpt-4o-mini'' 100 None)
              \<subseteq> {None, Some (RateLimitExceededError RPM)}"
    unfolding rpm2_first snd_conv rpm2_second
    by (simp add: rpm2_enforcer_def rules_eval enforcer_eval)
  show ?thesis
    using C3_third_request_in_the_minute[OF lit rpm fresh t12 t23 t31 refl refl o1 o2 o3]
      lit rpm fresh t31
    by simp
qed

lemma reason_first:
  "validate_request reason_enforcer (clock_at 0 1) ''openai'' ''gpt-4o-mini'' 100 None
    = (Inl (PolicyViolationError ReasonRequired),
       reason_enforcer\<lparr>rate_limit_state :=
        [''openai'' \<mapsto> \<lparr>requests = [time_time (clock_at 0 1)],
                          tokens = [(time_time (clock_at 0 1), 100)]\<rparr>]\<rparr>)"
  by (simp add: reason_enforcer_def enforcer_eval)

text \<open>With one request per minute allowed and a reason required, a call without a
  reason is refused for the reason and is in the window all the same; the call that
  follows two seconds later, with a reason, is refused by the rate limiter.\<close>

theorem C10_rejected_for_reason_is_recorded_witness:
  "fst (validate_request reason_enforcer (clock_at 0 1) ''openai'' ''gpt-4o-mini'' 100 None)
     = Inl (PolicyViolationError ReasonRequired)
   \<and> rate_limit_state
        (snd (validate_request reason_enforcer (clock_at 0 1) ''openai'' ''gpt-4o-mini'' 100 None))
        ''openai''
     = Some \<lparr>requests = [time_time (clock_at 0 1)],
             tokens = [(time_time (clock_at 0 1), 100)]\<rparr>
   \<and> int (length (window_requests
        (snd (validate_request reason_enforcer (clock_at 0 1) ''openai'' ''gpt-4o-mini'' 100 None))
        (clock_at 0 3) ''openai'')) = 1
   \<and> fst (validate_request
        (snd (validate_request reason_enforcer (clock_at 0 1) ''openai'' ''gpt-4o-mini'' 100 None))
        (clock_at 0 3) ''openai'' ''gpt-4o-mini'' 100 (Some ''support''))
     = Inl (RateLimitExceededError RPM)"
proof -
  let ?e1 = "snd (validate_request reason_enforcer (clock_at 0 1) ''openai'' ''gpt-4o-mini'' 100 None)"
  have hyp: "validate_request reason_enforcer (clock_at 0 1) ''openai'' ''gpt-4o-mini'' 100 None
      = (Inl (PolicyViolationError ReasonRequired), ?e1)"
    by (simp add: reason_first)
  have w0: "window_requests reason_enforcer (clock_at 0 1) ''openai'' = []"
    and k0: "window_tokens reason_enforcer (clock_at 0 1) ''openai'' = []"
    by (simp_all add: reason_enforcer_def window_requests_def window_tokens_def
        PolicyEnforcer_init_def)
  have later: "time_time (clock_at 0 3) - 60 < time_time (clock_at 0 1)"
    by (simp add: clock_at_def)
  have next_call: "fst (validate_request
        (reason_enforcer\<lparr>rate_limit_state :=
          [''openai'' \<mapsto> \<lparr>requests = [time_time (clock_at 0 1)],
                            tokens = [(time_time (clock_at 0 1), 100)]\<rparr>]\<rparr>)
        (clock_at 0 3) ''openai'' ''gpt-4o-mini'' 100 (Some ''support''))
     = Inl (RateLimitExceededError RPM)"
    by (simp add: reason_enforcer_def enforcer_eval)
  show ?thesis
    using C10_rejected_for_reason_is_recorded[OF hyp] later next_call
    by (simp add: w0 k0 reason_first)
qed

section \<open>The enforcer: budgets\<close>

text \<open>The monthly rule: once the seven rules before it have passed, a spend that the
  estimated cost would carry strictly beyond the monthly budget raises the fallback
  signal when the tenant has opted into the fallback and the budget error otherwise.\<close>

lemma monthly_budget_rule:
  assumes lit: "prov \<in> set PROVIDER_LITERAL"
    and before: "first_failure (take 7 (rule_failures self clk prov model tks reason)) = None"
    and over: "monthly_spend self + estimate_cost model tks 0.7 > monthly_budget_usd (policy self)"
  shows "fst (validate_request self clk prov model tks reason) =
           Inl (if fallback_to_local (policy self) then FallbackToLocalError Monthly
                else BudgetExceededError Monthly)"
proof -
  let ?fs = "rule_failures self clk prov model tks reason"
  have eight: "?fs ! 7 = Some (budget_error self Monthly)"
    using over by (simp add: rule_failures_def Let_def fails_if_def)
  have "?fs = take 7 ?fs @ ?fs ! 7 # drop 8 ?fs"
    by (simp add: rule_failures_def Let_def)
  then have "first_failure ?fs = first_failure (take 7 ?fs @ ?fs ! 7 # drop 8 ?fs)"
    by simp
  also have "\<dots> = Some (budget_error self Monthly)"
    unfolding first_failure_append before eight by simp
  finally have first: "first_failure ?fs = Some (budget_error self Monthly)" .
  have "take 7 ?fs ! 6 \<in> set (take 7 ?fs)"
    by (rule nth_mem) (simp add: rate_rules(3))
  then have seven: "?fs ! 6 = None"
    using before by (auto simp: first_failure_None_iff)
  have zero: "daily_budget_usd (policy self) = Some 0 \<longrightarrow>
                 \<not> spend_today self clk + estimate_cost model tks 0.7 > 0"
    using seven by (auto simp: daily_rule fails_if_None split: option.splits)
  show ?thesis
    unfolding validate_request_by_rules(1)[OF lit zero] first
    by (simp add: outcome_def budget_error_def)
qed

text \<open>The daily rule, for a daily budget that is set and is not zero.\<close>

lemma daily_budget_rule:
  assumes lit: "prov \<in> set PROVIDER_LITERAL"
    and before: "first_failure (take 6 (rule_failures self clk prov model tks reason)) = None"
    and daily: "daily_budget_usd (policy self) = Some d" "d \<noteq> 0"
    and over: "spend_today self clk + estimate_cost model tks 0.7 > d"
  shows "fst (validate_request self clk prov model tks reason) =
           Inl (if fallback_to_local (policy self) then FallbackToLocalError Daily
                else BudgetExceededError Daily)"
proof -
  let ?fs = "rule_failures self clk prov model tks reason"
  have seven: "?fs ! 6 = Some (budget_error self Daily)"
    using over daily by (simp add: rule_failures_def Let_def fails_if_def)
  have "?fs = take 6 ?fs @ ?fs ! 6 # drop 7 ?fs"
    by (simp add: rule_failures_def Let_def)
  then have "first_failure ?fs = first_failure (take 6 ?fs @ ?fs ! 6 # drop 7 ?fs)"
    by simp
  also have "\<dots> = Some (budget_error self Daily)"
    unfolding first_failure_append before seven by simp
  finally have first: "first_failure ?fs = Some (budget_error self Daily)" .
  have zero: "daily_budget_usd (policy self) = Some 0 \<longrightarrow>
                 \<not> spend_today self clk + estimate_cost model tks 0.7 > 0"
    using daily by simp
  show ?thesis
    unfolding validate_request_by_rules(1)[OF lit zero] first
    by (simp add: outcome_def budget_error_def)
qed

text \<open>The example of the specification: a budget of 1.0, a recorded spend of 0.95 and
  a request of 2000 tokens for \<^verbatim>\<open>claude-3-opus\<close>, estimated at 0.066.\<close>

lemma monthly_budget_example:
  "estimate_cost ''claude-3-opus'' 2000 0.7 = 0.066"
  "monthly_spend (budget_enforcer fb) = 0.95"
  "fst (validate_request (budget_enforcer False) (clock_at 0 2) ''anthropic'' ''claude-3-opus'' 2000 None)
     = Inl (BudgetExceededError Monthly)"
  "fst (validate_request (budget_enforcer True) (clock_at 0 2) ''anthropic'' ''claude-3-opus'' 2000 None)
     = Inl (FallbackToLocalError Monthly)"
  by (simp_all add: budget_enforcer_def enforcer_eval)

text \<open>
  C2, at a daily budget of zero. The tenant's daily budget is set, to 0.0, and the
  estimated cost of the request, 0.066, would carry the daily spend beyond it; the call
  passes all the same, since the test of the daily budget treats 0.0 like a budget
  that is not set.
\<close>

theorem C2_daily_budget_of_zero_is_not_enforced:
  "daily_budget_usd (policy zero_daily_enforcer) = Some 0
   \<and> \<not> fallback_to_local (policy zero_daily_enforcer)
   \<and> daily_spend zero_daily_enforcer + estimate_cost ''claude-3-opus'' 2000 0.7 > 0
   \<and> fst (validate_request zero_daily_enforcer (clock_at 0 1) ''anthropic'' ''claude-3-opus'' 2000 None)
       = Inr ()"
  by (simp add: zero_daily_enforcer_def enforcer_eval)

section \<open>The enforcer: the spend counters\<close>

text \<open>What \<open>validate_request\<close> does to the daily counter: nothing, or the reset of a
  new day.\<close>

lemma validate_request_daily:
  "(daily_spend (snd (validate_request self clk prov model tks reason)) = daily_spend self
      \<and> last_daily_reset (snd (validate_request self clk prov model tks reason))
          = last_daily_reset self)
   \<or> (date_of (utcnow clk) > last_daily_reset self
      \<and> daily_spend (snd (validate_request self clk prov model tks reason)) = 0
      \<and> last_daily_reset (snd (validate_request self clk prov model tks reason))
          = date_of (utcnow clk))"
proof (cases "prov \<in> set PROVIDER_LITERAL")
  case True
  have r: "reset_daily_budget_if_needed self clk = self
      \<or> (date_of (utcnow clk) > last_daily_reset self
          \<and> reset_daily_budget_if_needed self clk
              = self\<lparr>daily_spend := 0, last_daily_reset := date_of (utcnow clk)\<rparr>)"
    by (simp add: reset_daily_budget_if_needed_def Let_def)
  show ?thesis
    using validate_request_outcomes[OF True, of self clk model tks reason] r
    by (elim disjE) auto
next
  case False
  then show ?thesis by (simp add: validate_request_not_literal)
qed

lemma after_call_spend:
  assumes "\<not> is_reset (snd ck)" and "0 \<le> recorded_cost (snd ck)"
  shows "monthly_spend self \<le> monthly_spend (after_call self ck)"
    and "date_of (utcnow (fst ck)) \<le> last_daily_reset self \<Longrightarrow>
           daily_spend self \<le> daily_spend (after_call self ck)
           \<and> last_daily_reset (after_call self ck) = last_daily_reset self"
proof -
  obtain clk k where ck: "ck = (clk, k)" by (cases ck)
  show "monthly_spend self \<le> monthly_spend (after_call self ck)"
    using assms unfolding ck
    by (cases k) (simp_all add: record_usage_def Let_def)
  assume d: "date_of (utcnow (fst ck)) \<le> last_daily_reset self"
  show "daily_spend self \<le> daily_spend (after_call self ck)
           \<and> last_daily_reset (after_call self ck) = last_daily_reset self"
  proof (cases k)
    case (ValidateRequest prov model tks reason)
    then show ?thesis
      using d validate_request_daily[of self clk prov model tks reason] unfolding ck by auto
  next
    case (RecordUsage prov model tks_in tks_out cost latency ok reason)
    then show ?thesis
      using assms unfolding ck by (simp add: record_usage_def Let_def)
  qed (use assms ck in simp_all)
qed

lemma run_calls_spend:
  assumes "list_all (\<lambda>ck. \<not> is_reset (snd ck) \<and> 0 \<le> recorded_cost (snd ck)) calls"
  shows "monthly_spend self \<le> monthly_spend (foldl after_call self calls)"
    and "list_all (\<lambda>ck. date_of (utcnow (fst ck)) \<le> last_daily_reset self) calls \<Longrightarrow>
           daily_spend self \<le> daily_spend (foldl after_call self calls)"
proof -
  show "monthly_spend self \<le> monthly_spend (foldl after_call self calls)"
    using assms
  proof (induction calls arbitrary: self)
    case Nil
    then show ?case by simp
  next
    case (Cons ck calls)
    have "monthly_spend self \<le> monthly_spend (after_call self ck)"
      using Cons.prems by (intro after_call_spend(1)) simp_all
    also have "\<dots> \<le> monthly_spend (foldl after_call (after_call self ck) calls)"
      using Cons.prems by (intro Cons.IH) simp
    finally show ?case by simp
  qed
  show "list_all (\<lambda>ck. date_of (utcnow (fst ck)) \<le> last_daily_reset self) calls \<Longrightarrow>
           daily_spend self \<le> daily_spend (foldl after_call self calls)"
    using assms
  proof (induction calls arbitrary: self)
    case Nil
    then show ?case by simp
  next
    case (Cons ck calls)
    have step: "daily_spend self \<le> daily_spend (after_call self ck)
           \<and> last_daily_reset (after_call self ck) = last_daily_reset self"
      using Cons.prems by (intro after_call_spend(2)) simp_all
    then have "daily_spend (after_call self ck)
                 \<le> daily_spend (foldl after_call (after_call self ck) calls)"
      using Cons.prems by (intro Cons.IH) simp_all
    then show ?case using step by simp
  qed
qed

text \<open>
  C7, as the code has it. Over a sequence of calls with no call to
  \<open>reset_monthly_budget\<close> and no negative recorded cost, the monthly spend does not
  decrease. The daily spend does not decrease either as long as the UTC date of the
  calls is not past the date of the last daily reset; a \<open>validate_request\<close> on a later
  date either leaves the daily spend alone or resets it to zero and moves the date of
  the last reset to the current date.
\<close>

theorem C7_spend_is_monotone_between_resets:
  assumes "list_all (\<lambda>ck. \<not> is_reset (snd ck) \<and> 0 \<le> recorded_cost (snd ck)) calls"
  shows "monthly_spend self \<le> monthly_spend (run_calls self calls)
       \<and> (list_all (\<lambda>ck. date_of (utcnow (fst ck)) \<le> last_daily_reset self) calls
            \<longrightarrow> daily_spend self \<le> daily_spend (run_calls self calls))
       \<and> (daily_spend (snd (validate_request self clk prov model tks reason)) = daily_spend self
          \<or> (date_of (utcnow clk) > last_daily_reset self
              \<and> daily_spend (snd (validate_request self clk prov model tks reason)) = 0))"
  using run_calls_spend[OF assms, of self] validate_request_daily[of self clk prov model tks reason]
  unfolding run_calls_def by blast

lemma spent_enforcer_fields:
  "monthly_spend spent_enforcer = 5"
  "daily_spend spent_enforcer = 5"
  "last_daily_reset spent_enforcer = 739251"
  by (simp_all add: spent_enforcer_def enforcer_eval)

text \<open>Two validations and a recorded usage of two dollars on the day the enforcer was
  made: both counters go from 5 to 7.\<close>

theorem C7_spend_is_monotone_between_resets_witness:
  "list_all (\<lambda>ck. \<not> is_reset (snd ck) \<and> 0 \<le> recorded_cost (snd ck))
      [(clock_at 0 10, ValidateRequest ''openai'' ''gpt-4o'' 1000 None),
       (clock_at 0 20, RecordUsage ''openai'' ''gpt-4o'' 700 300 2 900 True None),
       (clock_at 0 30, ValidateRequest ''openai'' ''gpt-4o'' 1000 None)]
   \<and> list_all (\<lambda>ck. date_of (utcnow (fst ck)) \<le> last_daily_reset spent_enforcer)
      [(clock_at 0 10, ValidateRequest ''openai'' ''gpt-4o'' 1000 None),
       (clock_at 0 20, RecordUsage ''openai'' ''gpt-4o'' 700 300 2 900 True None),
       (clock_at 0 30, ValidateRequest ''openai'' ''gpt-4o'' 1000 None)]
   \<and> monthly_spend spent_enforcer
        \<le> monthly_spend (run_calls spent_enforcer
            [(clock_at 0 10, ValidateRequest ''openai'' ''gpt-4o'' 1000 None),
             (clock_at 0 20, RecordUsage ''openai'' ''gpt-4o'' 700 300 2 900 True None),
             (clock_at 0 30, ValidateRequest ''openai'' ''gpt-4o'' 1000 None)])
   \<and> daily_spend spent_enforcer
        \<le> daily_spend (run_calls spent_enforcer
            [(clock_at 0 10, ValidateRequest ''openai'' ''gpt-4o'' 1000 None),
             (clock_at 0 20, RecordUsage ''openai'' ''gpt-4o'' 700 300 2 900 True None),
             (clock_at 0 30, ValidateRequest ''openai'' ''gpt-4o'' 1000 None)])"
proof -
  have a: "list_all (\<lambda>ck. \<not> is_reset (snd ck) \<and> 0 \<le> recorded_cost (snd ck))
      [(clock_at 0 10, ValidateRequest ''openai'' ''gpt-4o'' 1000 None),
       (clock_at 0 20, RecordUsage ''openai'' ''gpt-4o'' 700 300 2 900 True None),
       (clock_at 0 30, ValidateRequest ''openai'' ''gpt-4o'' 1000 None)]"
    by simp
  have b: "list_all (\<lambda>ck. date_of (utcnow (fst ck)) \<le> last_daily_reset spent_enforcer)
      [(clock_at 0 10, ValidateRequest ''openai'' ''gpt-4o'' 1000 None),
       (clock_at 0 20, RecordUsage ''openai'' ''gpt-4o'' 700 300 2 900 True None),
       (clock_at 0 30, ValidateRequest ''openai'' ''gpt-4o'' 1000 None)]"
    by (simp add: spent_enforcer_fields clock_at_def date_of_def)
  show ?thesis
    using C7_spend_is_monotone_between_resets[OF a, of spent_enforcer] a b by blast
qed

text \<open>
  C7 as the specification states it fails at two sequences without a reset call: a
  validation on the day after the usage was recorded brings the daily spend from 5
  down to zero, and a recorded usage with a negative cost lowers the monthly spend.
\<close>

theorem C7_counterexample:
  "\<not> is_reset (ValidateRequest ''openai'' ''gpt-4o-mini'' 100 None)
   \<and> daily_spend (run_calls spent_enforcer
        [(clock_at 1 0, ValidateRequest ''openai'' ''gpt-4o-mini'' 100 None)])
      < daily_spend spent_enforcer
   \<and> \<not> is_reset (RecordUsage ''openai'' ''gpt-4o'' 0 0 (- 1) 0 True None)
   \<and> monthly_spend (run_calls spent_enforcer
        [(clock_at 0 2, RecordUsage ''openai'' ''gpt-4o'' 0 0 (- 1) 0 True None)])
      < monthly_spend spent_enforcer"
  by (simp add: run_calls_def spent_enforcer_def enforcer_eval)

section \<open>The collector: the bounded history and the tenant index\<close>

lemma record_metrics_history:
  "metrics (record_metrics self m) =
     (if int (length (metrics self)) + 1 > max_history self
      then tl (metrics self @ [priced m]) else metrics self @ [priced m])"
  "max_history (record_metrics self m) = max_history self"
  by (cases "metrics self"; simp add: record_metrics_def Let_def)+

lemma record_metrics_index:
  assumes "\<And>t. by_tenant self t = filter (\<lambda>x. m_tenant_id x = t) (metrics self)"
  shows "by_tenant (record_metrics self m) t
           = filter (\<lambda>x. m_tenant_id x = t) (metrics (record_metrics self m))"
proof -
  define ms where "ms = metrics self @ [priced m]"
  define bt where "bt = (by_tenant self)(m_tenant_id (priced m) :=
                            by_tenant self (m_tenant_id (priced m)) @ [priced m])"
  have bt: "bt u = filter (\<lambda>x. m_tenant_id x = u) ms" for u
    by (simp add: bt_def ms_def assms)
  obtain removed rest where ms: "ms = removed # rest"
    by (cases ms) (simp_all add: ms_def)
  have hd_tenant: "bt (m_tenant_id removed) = removed # filter (\<lambda>x. m_tenant_id x = m_tenant_id removed) rest"
    by (simp add: bt ms)
  show ?thesis
  proof (cases "int (length ms) > max_history self")
    case True
    have "record_metrics self m =
            self\<lparr>metrics := rest, by_tenant := bt(m_tenant_id removed := tl (bt (m_tenant_id removed)))\<rparr>"
      using True ms hd_tenant
      unfolding record_metrics_def Let_def ms_def[symmetric] bt_def[symmetric]
      by simp
    then show ?thesis
      by (simp add: hd_tenant bt ms)
  next
    case False
    have "record_metrics self m = self\<lparr>metrics := ms, by_tenant := bt\<rparr>"
      using False
      unfolding record_metrics_def Let_def ms_def[symmetric] bt_def[symmetric]
      by simp
    then show ?thesis
      by (simp add: bt)
  qed
qed

lemma recorded_invariant:
  "by_tenant (recorded mh ms) t = filter (\<lambda>x. m_tenant_id x = t) (metrics (recorded mh ms))"
  "length (metrics (recorded mh ms)) \<le> nat mh"
  "max_history (recorded mh ms) = mh"
proof -
  have "(\<forall>t. by_tenant (recorded mh ms) t
               = filter (\<lambda>x. m_tenant_id x = t) (metrics (recorded mh ms)))
        \<and> length (metrics (recorded mh ms)) \<le> nat mh
        \<and> max_history (recorded mh ms) = mh"
  proof (induction ms rule: rev_induct)
    case Nil
    then show ?case by (simp add: recorded_def TelemetryCollector_init_def)
  next
    case (snoc m ms)
    have step: "recorded mh (ms @ [m]) = record_metrics (recorded mh ms) m"
      by (simp add: recorded_def)
    have idx: "\<And>t. by_tenant (recorded mh ms) t
               = filter (\<lambda>x. m_tenant_id x = t) (metrics (recorded mh ms))"
      using snoc.IH by blast
    show ?case
      unfolding step
      using record_metrics_index[where self = "recorded mh ms" and m = m, OF idx] snoc.IH
      by (auto simp: record_metrics_history)
  qed
  then show "by_tenant (recorded mh ms) t = filter (\<lambda>x. m_tenant_id x = t) (metrics (recorded mh ms))"
    and "length (metrics (recorded mh ms)) \<le> nat mh"
    and "max_history (recorded mh ms) = mh"
    by blast+
qed

text \<open>
  C5. After every \<open>record\<close> call on a collector that has been fed by \<open>record\<close> calls
  only, the history holds at most \<open>max_history\<close> entries (none when \<open>max_history\<close> is not
  positive); the call appends the request, with its cost computed, and drops the oldest
  entry when the appended history is longer than \<open>max_history\<close>; and the list of every
  tenant in the index is the history's entries of that tenant, in the history's order,
  so that every retained entry is in the list of its tenant and of no other tenant, and
  an evicted entry is in none.
\<close>

theorem C5_bounded_history_and_consistent_index:
  "length (metrics (record_metrics (recorded mh ms) m)) \<le> nat mh
   \<and> metrics (record_metrics (recorded mh ms) m) =
       (if int (length (metrics (recorded mh ms))) + 1 > mh
        then tl (metrics (recorded mh ms) @ [priced m])
        else metrics (recorded mh ms) @ [priced m])
   \<and> (\<forall>t. by_tenant (record_metrics (recorded mh ms) m) t
             = filter (\<lambda>x. m_tenant_id x = t) (metrics (record_metrics (recorded mh ms) m)))"
proof -
  have step: "record_metrics (recorded mh ms) m = recorded mh (ms @ [m])"
    by (simp add: recorded_def)
  show ?thesis
    using recorded_invariant[of mh "ms @ [m]"] record_metrics_history[of "recorded mh ms" m]
      recorded_invariant(3)[of mh ms]
    unfolding step[symmetric] by simp
qed

text \<open>With room for two entries, the third request evicts the first, from the history
  and from the list of its tenant.\<close>

theorem C5_bounded_history_and_consistent_index_witness:
  "metrics (record_metrics
       (recorded 2 [tenant_request ''req-0'' ''tenant-a'', tenant_request ''req-1'' ''tenant-b''])
       (tenant_request ''req-2'' ''tenant-a''))
     = [tenant_request ''req-1'' ''tenant-b'', tenant_request ''req-2'' ''tenant-a'']
   \<and> by_tenant (record_metrics
       (recorded 2 [tenant_request ''req-0'' ''tenant-a'', tenant_request ''req-1'' ''tenant-b''])
       (tenant_request ''req-2'' ''tenant-a'')) ''tenant-a''
     = [tenant_request ''req-2'' ''tenant-a'']
   \<and> by_tenant (record_metrics
       (recorded 2 [tenant_request ''req-0'' ''tenant-a'', tenant_request ''req-1'' ''tenant-b''])
       (tenant_request ''req-2'' ''tenant-a'')) ''tenant-b''
     = [tenant_request ''req-1'' ''tenant-b'']"
proof -
  have p: "priced (tenant_request rid tenant) = tenant_request rid tenant" for rid tenant
    by (simp add: priced_def tenant_request_def LLMRequestMetrics_default_def)
  have t: "m_tenant_id (tenant_request rid tenant) = tenant" for rid tenant
    by (simp add: tenant_request_def LLMRequestMetrics_default_def)
  have two: "metrics (recorded 2 [tenant_request ''req-0'' ''tenant-a'',
                                   tenant_request ''req-1'' ''tenant-b''])
      = [tenant_request ''req-0'' ''tenant-a'', tenant_request ''req-1'' ''tenant-b'']"
    by (simp add: recorded_def record_metrics_history p TelemetryCollector_init_def)
  show ?thesis
    using C5_bounded_history_and_consistent_index[of 2
        "[tenant_request ''req-0'' ''tenant-a'', tenant_request ''req-1'' ''tenant-b'']"
        "tenant_request ''req-2'' ''tenant-a''"]
    by (simp add: two p t)
qed

section \<open>The collector: the cost of a request\<close>

lemma calculate_cost_found_rates:
  "calculate_cost prov model i n =
     (case found_rates model of
        None \<Rightarrow> 0
      | Some (input_rate, output_rate) \<Rightarrow>
          (of_int i * input_rate + of_int n * output_rate) / 1000)"
  by (simp add: calculate_cost_def get_model_pricing_def found_rates_def Let_def
      split: option.splits)

lemma record_metrics_last:
  assumes "0 < max_history self"
  shows "last (metrics (record_metrics self m)) = priced m"
proof (cases "metrics self")
  case Nil
  then show ?thesis using assms by (simp add: record_metrics_history)
next
  case (Cons x xs)
  then show ?thesis by (simp add: record_metrics_history)
qed

text \<open>
  C6, as the code has it. When \<open>record\<close> receives a request whose cost is zero and whose
  total token count is positive, the request it stores has the cost
  \<open>(input_tokens * input_rate + output_tokens * output_rate) / 1000\<close>, with the rates of
  the first of the model's name and its name prefixed by \<^verbatim>\<open>azure-\<close>, \<^verbatim>\<open>claude-\<close> and
  \<^verbatim>\<open>gpt-\<close> that is a key of the pricing table, and the cost zero when none of the four
  is a key. In particular a model of the table is priced at its own rates.
\<close>

theorem C6_cost_from_the_pricing_table:
  assumes "cost_usd m = 0" and "0 < total_tokens m" and "0 < max_history self"
  shows "last (metrics (record_metrics self m)) =
           m\<lparr>cost_usd :=
               (case found_rates (m_model m) of
                  None \<Rightarrow> 0
                | Some (input_rate, output_rate) \<Rightarrow>
                    (of_int (input_tokens m) * input_rate
                       + of_int (output_tokens m) * output_rate) / 1000)\<rparr>
       \<and> (map_of MODEL_COSTS (m_model m) = Some (input_rate, output_rate) \<longrightarrow>
            cost_usd (last (metrics (record_metrics self m))) =
              (of_int (input_tokens m) * input_rate
                 + of_int (output_tokens m) * output_rate) / 1000)
       \<and> (found_rates (m_model m) = None \<longrightarrow>
            cost_usd (last (metrics (record_metrics self m))) = 0)"
  using assms
  by (simp add: record_metrics_last priced_def calculate_cost_found_rates found_rates_def)

text \<open>The request of \<^verbatim>\<open>test_automatic_cost_calculation\<close>: a thousand input and five
  hundred output tokens of \<^verbatim>\<open>gpt-4o\<close> cost 0.0075.\<close>

theorem C6_cost_from_the_pricing_table_witness:
  "cost_usd request_gpt4o = 0
   \<and> 0 < total_tokens request_gpt4o
   \<and> map_of MODEL_COSTS (m_model request_gpt4o) = Some (0.0025, 0.01)
   \<and> cost_usd (last (metrics (record_metrics (TelemetryCollector_init 10000) request_gpt4o)))
       = 0.0075"
proof -
  have a: "cost_usd request_gpt4o = 0" and b: "0 < total_tokens request_gpt4o"
    and f: "m_model request_gpt4o = ''gpt-4o''" "input_tokens request_gpt4o = 1000"
      "output_tokens request_gpt4o = 500"
    by (simp_all add: request_gpt4o_def LLMRequestMetrics_default_def)
  have c: "0 < max_history (TelemetryCollector_init 10000)"
    by (simp add: TelemetryCollector_init_def)
  have d: "map_of MODEL_COSTS ''gpt-4o'' = Some (0.0025, 0.01)"
    by (simp add: MODEL_COSTS_def)
  have "cost_usd (last (metrics (record_metrics (TelemetryCollector_init 10000) request_gpt4o)))
      = (of_int (input_tokens request_gpt4o) * 0.0025
           + of_int (output_tokens request_gpt4o) * 0.01) / 1000"
    using C6_cost_from_the_pricing_table[OF a b c, of "0.0025" "0.01"] d
    unfolding f(1) by blast
  then show ?thesis
    using a b d by (simp add: f)
qed

text \<open>
  C6 as the specification states it fails at the model \<^verbatim>\<open>4o\<close>: it is not found in the
  pricing table, and the request is priced all the same, at the rates of \<^verbatim>\<open>gpt-4o\<close>.
\<close>

theorem C6_counterexample:
  "map_of MODEL_COSTS (m_model request_4o) = None
   \<and> cost_usd request_4o = 0
   \<and> total_tokens request_4o = 2000
   \<and> cost_usd (last (metrics (record_metrics (TelemetryCollector_init 10000) request_4o)))
       = 0.0125"
  by (simp add: request_4o_def LLMRequestMetrics_default_def MODEL_COSTS_def
      record_metrics_last TelemetryCollector_init_def priced_def calculate_cost_def
      get_model_pricing_def)

section \<open>The collector: percentiles\<close>

lemma py_getitem_in_range:
  assumes "0 \<le> i" and "i < int (length xs)"
  shows "py_getitem xs i = Inr (xs ! nat i)"
  using assms by (simp add: py_getitem_def)

text \<open>The index of a percentile between 0 and 100 lies within the list.\<close>

lemma percentile_index:
  fixes p :: int and n :: nat
  assumes "0 < n" and "0 \<le> p" and "p \<le> 100"
  defines "idx \<equiv> of_int ((int n - 1) * p) / (100::real)"
  shows "0 \<le> idx" and "idx \<le> of_nat n - 1" and "\<lfloor>idx\<rfloor> < int n" and "0 \<le> \<lfloor>idx\<rfloor>"
    and "of_int \<lfloor>idx\<rfloor> \<noteq> idx \<Longrightarrow> \<lceil>idx\<rceil> = \<lfloor>idx\<rfloor> + 1 \<and> \<lfloor>idx\<rfloor> + 1 \<le> int n - 1"
proof -
  have n1: "0 \<le> int n - 1" using assms by simp
  have num: "0 \<le> (int n - 1) * p" using n1 assms by simp
  have num': "0 \<le> (of_int ((int n - 1) * p) :: real)"
    using num by (simp only: of_int_0_le_iff)
  show nonneg: "0 \<le> idx"
    unfolding idx_def using num' by (rule divide_nonneg_nonneg) simp
  have "(int n - 1) * p \<le> (int n - 1) * 100"
    using n1 assms by (intro mult_left_mono) simp_all
  then have "of_int ((int n - 1) * p) \<le> (of_int ((int n - 1) * 100) :: real)"
    by (simp only: of_int_le_iff)
  then have "idx \<le> of_int ((int n - 1) * 100) / 100"
    unfolding idx_def by (rule divide_right_mono) simp
  also have "\<dots> = of_nat n - 1"
    using assms(1) by simp
  finally show le: "idx \<le> of_nat n - 1" .
  have "\<lfloor>idx\<rfloor> \<le> int n - 1"
  proof -
    have "idx \<le> of_int (int n - 1)" using le by simp
    then have "\<lfloor>idx\<rfloor> \<le> \<lfloor>(of_int (int n - 1))::real\<rfloor>" by (rule floor_mono)
    then show ?thesis by simp
  qed
  then show "\<lfloor>idx\<rfloor> < int n" by simp
  show "0 \<le> \<lfloor>idx\<rfloor>" using nonneg by simp
  assume frac: "of_int \<lfloor>idx\<rfloor> \<noteq> idx"
  then have c: "\<lceil>idx\<rceil> = \<lfloor>idx\<rfloor> + 1"
    by (simp add: ceiling_altdef)
  have "idx < of_int (int n - 1)"
  proof (rule ccontr)
    assume "\<not> idx < of_int (int n - 1)"
    then have "idx = of_int (int n - 1)" using le by simp
    then have "of_int \<lfloor>idx\<rfloor> = idx" by simp
    then show False using frac by simp
  qed
  then have "\<lfloor>idx\<rfloor> < int n - 1" by (simp add: floor_less_iff)
  then show "\<lceil>idx\<rceil> = \<lfloor>idx\<rfloor> + 1 \<and> \<lfloor>idx\<rfloor> + 1 \<le> int n - 1"
    using c by simp
qed

lemma percentile_spec:
  assumes "vals \<noteq> []" and "0 \<le> p" and "p \<le> 100"
  shows "percentile vals p = Inr (spec_percentile vals p)"
proof -
  define n where "n = length vals"
  define idx where "idx = of_int ((int n - 1) * p) / (100::real)"
  have n: "0 < n" using assms by (simp add: n_def)
  have same: "(of_nat (length vals) - 1) * of_int p / (100::real) = idx"
    using n by (simp add: idx_def n_def)
  note ix = percentile_index[OF n assms(2,3), folded idx_def]
  have trunc: "py_int_of_float idx = \<lfloor>idx\<rfloor>"
    using ix(1) by (simp add: py_int_of_float_def)
  have lo: "py_getitem vals \<lfloor>idx\<rfloor> = Inr (vals ! nat \<lfloor>idx\<rfloor>)"
    using ix(3,4) by (intro py_getitem_in_range) (simp_all add: n_def)
  have P: "percentile vals p =
      (if of_int \<lfloor>idx\<rfloor> = idx then py_getitem vals (py_int_of_float idx)
       else
        (case py_getitem vals (py_int_of_float idx) of
              Inl err \<Rightarrow> Inl err
            | Inr lo \<Rightarrow>
               (case py_getitem vals (min (py_int_of_float idx + 1) (int (length vals) - 1)) of
                  Inl err \<Rightarrow> Inl err
                | Inr hi \<Rightarrow> Inr (lo + (hi - lo) * (idx - of_int (py_int_of_float idx))))))"
    unfolding percentile_def Let_def idx_def n_def
    by (simp only: assms(1) if_False)
  have S: "spec_percentile vals p =
     (if of_int \<lfloor>idx\<rfloor> = idx then vals ! nat \<lfloor>idx\<rfloor>
      else vals ! nat \<lfloor>idx\<rfloor>
          + (vals ! nat \<lceil>idx\<rceil> - vals ! nat \<lfloor>idx\<rfloor>) * (idx - of_int \<lfloor>idx\<rfloor>))"
    unfolding spec_percentile_def Let_def same by (rule refl)
  show ?thesis
  proof (cases "of_int \<lfloor>idx\<rfloor> = idx")
    case True
    show ?thesis
      unfolding P S trunc using True lo by simp
  next
    case False
    from ix(5)[OF False] have up: "\<lceil>idx\<rceil> = \<lfloor>idx\<rfloor> + 1" and le: "\<lfloor>idx\<rfloor> + 1 \<le> int n - 1"
      by simp_all
    have m: "min (\<lfloor>idx\<rfloor> + 1) (int (length vals) - 1) = \<lceil>idx\<rceil>"
      using up le by (simp add: n_def)
    have hi: "py_getitem vals \<lceil>idx\<rceil> = Inr (vals ! nat \<lceil>idx\<rceil>)"
      using up le ix(4) by (intro py_getitem_in_range) (simp_all add: n_def)
    show ?thesis
      unfolding P S trunc m using False lo hi by simp
  qed
qed


text \<open>The three percentiles of \<open>get_stats\<close> never raise.\<close>

lemma aggregate_total: "\<exists>a. aggregate cutoff now tenant ms = Inr a"
proof (cases "ms = []")
  case True
  then show ?thesis by (simp add: aggregate_def)
next
  case False
  then have ne: "sort (map latency_ms ms) \<noteq> []"
    by (metis length_0_conv length_map length_sort)
  show ?thesis
    using False
    by (simp add: aggregate_def Let_def percentile_spec[OF ne])
qed




lemma aggregate_fields:
  assumes "aggregate cutoff now tenant ms = Inr a"
  shows "period_start a = cutoff" and "period_end a = now"
    and "ms \<noteq> [] \<Longrightarrow>
           latency_p50 a = spec_percentile (sort (map latency_ms ms)) 50
         \<and> latency_p95 a = spec_percentile (sort (map latency_ms ms)) 95
         \<and> latency_p99 a = spec_percentile (sort (map latency_ms ms)) 99
         \<and> latency_avg a = latency_average (sort (map latency_ms ms))
         \<and> Inr (latency_p50 a) = percentile (sort (map latency_ms ms)) 50
         \<and> Inr (latency_p95 a) = percentile (sort (map latency_ms ms)) 95
         \<and> Inr (latency_p99 a) = percentile (sort (map latency_ms ms)) 99"
proof -
  have ne: "ms \<noteq> [] \<Longrightarrow> sort (map latency_ms ms) \<noteq> []"
    by (metis length_0_conv length_map length_sort)
  show "period_start a = cutoff" and "period_end a = now"
    using assms ne
    by (cases "ms = []";
        auto simp: aggregate_def AggregatedMetrics_default_def Let_def percentile_spec)+
  assume "ms \<noteq> []"
  then show "latency_p50 a = spec_percentile (sort (map latency_ms ms)) 50
         \<and> latency_p95 a = spec_percentile (sort (map latency_ms ms)) 95
         \<and> latency_p99 a = spec_percentile (sort (map latency_ms ms)) 99
         \<and> latency_avg a = latency_average (sort (map latency_ms ms))
         \<and> Inr (latency_p50 a) = percentile (sort (map latency_ms ms)) 50
         \<and> Inr (latency_p95 a) = percentile (sort (map latency_ms ms)) 95
         \<and> Inr (latency_p99 a) = percentile (sort (map latency_ms ms)) 99"
    using assms ne
    by (auto simp: aggregate_def Let_def percentile_spec)
qed

lemma get_stats_Inr:
  assumes "get_stats self now period tenant = Inr a"
  obtains delta where "parse_period period = Inr delta"
    and "datetime_sub now delta = Inr (now - delta)"
    and "aggregate (now - delta) now tenant (selected self (now - delta) tenant) = Inr a"
  using assms
  by (auto simp: get_stats_def datetime_sub_def Let_def split: sum.splits if_splits)



lemma parse_1h: "parse_period ''1h'' = Inr 3600000000"
  by (simp add: parse_period_def py_int_def py_strip_def py_isspace_def digit_of_def
      timedelta_def)

lemma aggregate_total_requests:
  assumes "aggregate cutoff now tenant ms = Inr a"
  shows "total_requests a = int (length ms)"
proof (cases "ms = []")
  case True
  then show ?thesis
    using assms by (auto simp: aggregate_def AggregatedMetrics_default_def)
next
  case False
  then have ne: "sort (map latency_ms ms) \<noteq> []"
    by (metis length_0_conv length_map length_sort)
  show ?thesis
    using assms False
    by (auto simp: aggregate_def Let_def percentile_spec[OF ne])
qed

text \<open>Asking for the last hour, at a time the calendar has an hour before.\<close>

lemma get_stats_1h:
  assumes "3600000000 \<le> now" and "now \<le> DATETIME_MAX + 3600000000"
  shows "\<exists>a. get_stats self now ''1h'' tenant = Inr a
       \<and> period_start a = now - 3600000000 \<and> period_end a = now
       \<and> total_requests a = int (length (selected self (now - 3600000000) tenant))"
proof -
  have c: "datetime_sub now 3600000000 = Inr (now - 3600000000)"
    using assms by (simp add: datetime_sub_def)
  obtain a where a: "aggregate (now - 3600000000) now tenant
      (selected self (now - 3600000000) tenant) = Inr a"
    using aggregate_total by blast
  then have "period_start a = now - 3600000000" and "period_end a = now"
    and "total_requests a = int (length (selected self (now - 3600000000) tenant))"
    by (rule aggregate_fields(1), rule aggregate_fields(2), rule aggregate_total_requests)
  then show ?thesis
    using a by (simp add: get_stats_def parse_1h c)
qed


section \<open>The collector: asking twice\<close>

lemma aggregate_shift:
  assumes "aggregate cutoff now tenant ms = Inr a"
  shows "aggregate cutoff' now' tenant ms = Inr (a\<lparr>period_start := cutoff', period_end := now'\<rparr>)"
proof (cases "ms = []")
  case True
  then show ?thesis
    using assms by (auto simp: aggregate_def AggregatedMetrics_default_def)
next
  case False
  then have ne: "sort (map latency_ms ms) \<noteq> []"
    by (metis length_0_conv length_map length_sort)
  show ?thesis
    using assms False
    by (auto simp: aggregate_def Let_def percentile_spec[OF ne])
qed

text \<open>
  C8, as the code has it. \<open>get_stats\<close> reads the clock: its result carries the time of
  the call as \<open>period_end\<close> and that time less the period as \<open>period_start\<close>, and it
  aggregates the records not older than \<open>period_start\<close>. Two calls with the same period
  and tenant filter and no \<open>record\<close> in between, at the times \<open>now1\<close> and \<open>now2\<close>, that
  both return and select the same records, return values that agree in every field but
  \<open>period_start\<close> and \<open>period_end\<close>; these two have moved by \<open>now2 - now1\<close>.
\<close>

theorem C8_get_stats_twice:
  assumes g1: "get_stats self now1 period tenant = Inr a1"
    and g2: "get_stats self now2 period tenant = Inr a2"
    and same: "selected self (period_start a1) tenant = selected self (period_start a2) tenant"
  shows "a2 = a1\<lparr>period_start := period_start a2, period_end := period_end a2\<rparr>
       \<and> period_end a1 = now1 \<and> period_end a2 = now2
       \<and> period_start a2 - period_start a1 = now2 - now1"
proof -
  obtain d1 where p1: "parse_period period = Inr d1"
    and agg1: "aggregate (now1 - d1) now1 tenant (selected self (now1 - d1) tenant) = Inr a1"
    using g1 by (rule get_stats_Inr)
  obtain d2 where p2: "parse_period period = Inr d2"
    and agg2: "aggregate (now2 - d2) now2 tenant (selected self (now2 - d2) tenant) = Inr a2"
    using g2 by (rule get_stats_Inr)
  have d: "d2 = d1" using p1 p2 by simp
  have s1: "period_start a1 = now1 - d1" and e1: "period_end a1 = now1"
    using agg1 by (rule aggregate_fields(1), rule aggregate_fields(2))
  have s2: "period_start a2 = now2 - d2" and e2: "period_end a2 = now2"
    using agg2 by (rule aggregate_fields(1), rule aggregate_fields(2))
  have "aggregate (now2 - d2) now2 tenant (selected self (now1 - d1) tenant)
          = Inr (a1\<lparr>period_start := now2 - d2, period_end := now2\<rparr>)"
    using agg1 by (rule aggregate_shift)
  then have "a2 = a1\<lparr>period_start := now2 - d2, period_end := now2\<rparr>"
    using agg2 same unfolding s1 s2 by simp
  then show ?thesis
    using s1 s2 e1 e2 d by simp
qed


lemma one_request_selected:
  "selected one_request c None = (if c \<le> minutes_after 0 then [latency_request 100] else [])"
proof -
  have p: "priced (latency_request l) = latency_request l" for l
    by (simp add: priced_def latency_request_def LLMRequestMetrics_default_def)
  have "metrics one_request = [latency_request 100]"
    by (simp add: one_request_def recorded_def record_metrics_history p
        TelemetryCollector_init_def)
  then show ?thesis
    by (simp add: selected_def latency_request_def LLMRequestMetrics_default_def
        minutes_after_def)
qed

lemma one_request_stats:
  assumes "0 \<le> k" and "k \<le> 1000000"
  shows "\<exists>a. get_stats one_request (minutes_after k) ''1h'' None = Inr a
       \<and> period_start a = minutes_after k - 3600000000 \<and> period_end a = minutes_after k
       \<and> total_requests a = (if k \<le> 60 then 1 else 0)"
proof -
  have "3600000000 \<le> minutes_after k" and "minutes_after k \<le> DATETIME_MAX + 3600000000"
    using assms by (simp_all add: minutes_after_def DATETIME_MAX_def)
  from get_stats_1h[OF this, of one_request None]
  show ?thesis
    by (auto simp: one_request_selected minutes_after_def)
qed

text \<open>One request in the history; the last hour is asked for ten and twenty minutes
  after the request was recorded.\<close>

theorem C8_get_stats_twice_witness:
  "selected one_request (minutes_after 10 - 3600000000) None
     = selected one_request (minutes_after 20 - 3600000000) None
   \<and> projr (get_stats one_request (minutes_after 20) ''1h'' None)
       = (projr (get_stats one_request (minutes_after 10) ''1h'' None))
           \<lparr>period_start := minutes_after 20 - 3600000000, period_end := minutes_after 20\<rparr>
   \<and> period_end (projr (get_stats one_request (minutes_after 10) ''1h'' None)) = minutes_after 10
   \<and> total_requests (projr (get_stats one_request (minutes_after 20) ''1h'' None)) = 1"
proof -
  obtain a1 where g1: "get_stats one_request (minutes_after 10) ''1h'' None = Inr a1"
    and s1: "period_start a1 = minutes_after 10 - 3600000000"
    using one_request_stats[of 10] by auto
  obtain a2 where g2: "get_stats one_request (minutes_after 20) ''1h'' None = Inr a2"
    and s2: "period_start a2 = minutes_after 20 - 3600000000"
    and n2: "total_requests a2 = 1"
    using one_request_stats[of 20] by auto
  have same: "selected one_request (minutes_after 10 - 3600000000) None
     = selected one_request (minutes_after 20 - 3600000000) None"
    by (simp add: one_request_selected minutes_after_def)
  then have same': "selected one_request (period_start a1) None
     = selected one_request (period_start a2) None"
    unfolding s1 s2 .
  from C8_get_stats_twice[OF g1 g2 same']
  have eq: "a2 = a1\<lparr>period_start := period_start a2, period_end := period_end a2\<rparr>"
    and e1: "period_end a1 = minutes_after 10" and e2: "period_end a2 = minutes_after 20"
    by blast+
  have "a2 = a1\<lparr>period_start := minutes_after 20 - 3600000000,
                   period_end := minutes_after 20\<rparr>"
    by (rule eq[unfolded s2 e2])
  then have "projr (get_stats one_request (minutes_after 20) ''1h'' None)
       = (projr (get_stats one_request (minutes_after 10) ''1h'' None))
           \<lparr>period_start := minutes_after 20 - 3600000000, period_end := minutes_after 20\<rparr>"
    unfolding g1 g2 sum.sel .
  moreover have "period_end (projr (get_stats one_request (minutes_after 10) ''1h'' None))
       = minutes_after 10"
    unfolding g1 sum.sel by (rule e1)
  moreover have "total_requests (projr (get_stats one_request (minutes_after 20) ''1h'' None)) = 1"
    unfolding g2 sum.sel by (rule n2)
  ultimately show ?thesis
    using same by blast
qed

text \<open>
  C8 as the specification states it fails when the clock moves between the two calls:
  asked for the last hour thirty minutes and two hours after the one request was
  recorded, the collector reports one request the first time and none the second, with
  different ends of the period.
\<close>

theorem C8_counterexample:
  "get_stats one_request (minutes_after 30) ''1h'' None
     \<noteq> get_stats one_request (minutes_after 120) ''1h'' None
   \<and> total_requests (projr (get_stats one_request (minutes_after 30) ''1h'' None)) = 1
   \<and> total_requests (projr (get_stats one_request (minutes_after 120) ''1h'' None)) = 0
   \<and> period_end (projr (get_stats one_request (minutes_after 30) ''1h'' None))
       = minutes_after 30
   \<and> period_end (projr (get_stats one_request (minutes_after 120) ''1h'' None))
       = minutes_after 120"
proof -
  obtain a1 where g1: "get_stats one_request (minutes_after 30) ''1h'' None = Inr a1"
    and e1: "period_end a1 = minutes_after 30" and n1: "total_requests a1 = 1"
    using one_request_stats[of 30] by auto
  obtain a2 where g2: "get_stats one_request (minutes_after 120) ''1h'' None = Inr a2"
    and e2: "period_end a2 = minutes_after 120" and n2: "total_requests a2 = 0"
    using one_request_stats[of 120] by auto
  have "a1 \<noteq> a2" using n1 n2 by auto
  then show ?thesis
    by (simp add: g1 g2 e1 e2 n1 n2)
qed

end
